theory Spec2Isabelle
  imports Complex_Main "HOL-Library.Sublist" "HOL-Library.Char_ord" "HOL-Library.List_Lexorder"
    "HOL-Library.Product_Lexorder"
begin

section \<open>Text\<close>

text \<open>
  Python strings are modelled as \<^typ>\<open>string\<close>, read as ASCII text. \<open>str.lower\<close> maps the
  letters \<open>A\<close> to \<open>Z\<close> to \<open>a\<close> to \<open>z\<close> and leaves every other character alone.
\<close>

definition lower_char :: "char \<Rightarrow> char" where
  "lower_char c =
     (let n = (of_char c :: nat) in if 65 \<le> n \<and> n \<le> 90 then char_of (n + 32) else c)"

definition lower :: "string \<Rightarrow> string" where
  "lower text = map lower_char text"

text \<open>Python's \<open>word in text\<close> on strings: \<open>word\<close> occurs as a contiguous run of \<open>text\<close>.\<close>

fun starts_with :: "string \<Rightarrow> string \<Rightarrow> bool" where
  "starts_with [] text = True"
| "starts_with (w # ws) [] = False"
| "starts_with (w # ws) (c # cs) = (w = c \<and> starts_with ws cs)"

fun str_in :: "string \<Rightarrow> string \<Rightarrow> bool" where
  "str_in word [] = (word = [])"
| "str_in word (c # cs) = (starts_with word (c # cs) \<or> str_in word cs)"

section \<open>Classification\<close>

datatype category = SupplierIssue | LogisticsIssue | CustomerIssue | Unknown

text \<open>
  Variant 1 of \<open>call_openai_classify\<close> (the first copy of the app):
  \<^verbatim>\<open>
  text = text.lower()
  if "damage" in text or "wrong" in text or "missing" in text or "color" in text:
      return "Supplier Issue"
  elif "late" in text or "courier" in text or "delivery" in text:
      return "Logistics Issue"
  else:
      return "Customer Issue"
  \<close>
\<close>

definition call_openai_classify_v1 :: "string \<Rightarrow> category" where
  "call_openai_classify_v1 text0 =
     (let text = lower text0 in
      if str_in ''damage'' text \<or> str_in ''wrong'' text \<or> str_in ''missing'' text
           \<or> str_in ''color'' text
      then SupplierIssue
      else if str_in ''late'' text \<or> str_in ''courier'' text \<or> str_in ''delivery'' text
      then LogisticsIssue
      else CustomerIssue)"

text \<open>
  Variant 3 (the final copy) goes through keyword lists, and knows \<open>defect\<close>:
  \<^verbatim>\<open>
  if any(word in text for word in ["damage", "wrong", "missing", "color", "defect"]): ...
  elif any(word in text for word in ["late", "courier", "delivery"]): ...
  \<close>
\<close>

definition supplier_words :: "string list" where
  "supplier_words = [''damage'', ''wrong'', ''missing'', ''color'', ''defect'']"

definition logistics_words :: "string list" where
  "logistics_words = [''late'', ''courier'', ''delivery'']"

definition call_openai_classify_v3 :: "string \<Rightarrow> category" where
  "call_openai_classify_v3 text0 =
     (let text = lower text0 in
      if list_ex (\<lambda>word. str_in word text) supplier_words then SupplierIssue
      else if list_ex (\<lambda>word. str_in word text) logistics_words then LogisticsIssue
      else CustomerIssue)"

section \<open>Data\<close>

text \<open>
  A value in a cell of a pandas frame read by \<open>pd.read_csv\<close>: a string, an integer, a
  finite float, a boolean, or the missing value \<open>NaN\<close>. A float is held as its value
  together with the text that Python prints for it (\<open>101.0\<close>, \<open>1.5\<close>): that text is the
  library's to compute, and two floats of the same value carry the same text (a frame is
  taken not to hold both \<open>0.0\<close> and \<open>-0.0\<close>).

  \<open>read_csv\<close> gives every column one type. In particular a column of integers with a
  missing value is a column of floats: its cells are \<open>Float 101 ''101.0''\<close>, not \<open>Num 101\<close>.
\<close>

datatype cell = Str string | Num int | Float rat string | Bool bool | NaN

text \<open>Python's \<open>str(n)\<close> for an integer: decimal digits, a minus sign when negative.\<close>

definition digit_char :: "int \<Rightarrow> char" where
  "digit_char d = char_of (48 + d)"

function digits :: "int \<Rightarrow> string" where
  "digits n = (if n < 10 then [digit_char n] else digits (n div 10) @ [digit_char (n mod 10)])"
  by pat_completeness auto
termination
  by (relation "measure nat") auto

declare digits.simps [simp del]

definition str_int :: "int \<Rightarrow> string" where
  "str_int i = (if i < 0 then CHR ''-'' # digits (- i) else digits i)"

text \<open>\<open>str(v)\<close> of a cell, as f-strings and \<open>csv.writer\<close> apply it.\<close>

fun str_cell :: "cell \<Rightarrow> string" where
  "str_cell (Str s) = s"
| "str_cell (Num n) = str_int n"
| "str_cell (Float q printed) = printed"
| "str_cell (Bool b) = (if b then ''True'' else ''False'')"
| "str_cell NaN = ''nan''"

text \<open>
  A frame has its column names and one list of cells per row. A row handed out by
  \<open>df.iterrows()\<close> or \<open>.iloc[0].to_dict()\<close> pairs the column names with the row's cells.
\<close>

type_synonym row = "(string \<times> cell) list"

record frame =
  columns :: "string list"
  cells :: "cell list list"

definition iterrows :: "frame \<Rightarrow> row list" where
  "iterrows df = map (zip (columns df)) (cells df)"

datatype exn =
    KeyError string | AttributeError string | IndexError | OtherError string

fun str_exn :: "exn \<Rightarrow> string" where
  "str_exn (KeyError k) = CHR 0x27 # k @ [CHR 0x27]"
| "str_exn (AttributeError m) = m"
| "str_exn IndexError = ''single positional indexer is out-of-bounds''"
| "str_exn (OtherError m) = m"

text \<open>\<open>df[name]\<close>: the column, or \<open>KeyError\<close> when the frame has no such column.\<close>

definition column :: "frame \<Rightarrow> string \<Rightarrow> exn + cell list" where
  "column df name =
     (if name \<in> set (columns df)
      then Inr (map (\<lambda>r. case map_of r name of Some v \<Rightarrow> v | None \<Rightarrow> NaN) (iterrows df))
      else Inl (KeyError name))"

text \<open>\<open>row.get(key, "")\<close> on a row (a Series or a dict).\<close>

definition get :: "row \<Rightarrow> string \<Rightarrow> cell" where
  "get complaint_row key = (case map_of complaint_row key of Some v \<Rightarrow> v | None \<Rightarrow> Str [])"

record ticket =
  Ticket_ID :: string
  Complaint_ID :: cell
  Supplier :: cell
  Product :: cell
  Order_ID :: cell
  Issue :: string
  Created_At :: string
  Status :: string
  Notes :: string

text \<open>\<open>ticket.values()\<close>: the values in the order the dict literal lists its keys.\<close>

definition ticket_values :: "ticket \<Rightarrow> string list" where
  "ticket_values t =
     [Ticket_ID t, str_cell (Complaint_ID t), str_cell (Supplier t), str_cell (Product t),
      str_cell (Order_ID t), Issue t, Created_At t, Status t, Notes t]"

section \<open>The tickets file\<close>

text \<open>
  \<open>csv.writer(f).writerow(values)\<close> with the default dialect: fields joined by commas, the
  line ended by CR LF; a field holding a comma, a double quote, CR or LF is put in double
  quotes with each double quote doubled; a row of one empty field is written as two quotes.
\<close>

definition dquote :: char where
  "dquote = CHR 0x22"

definition needs_quotes :: "string \<Rightarrow> bool" where
  "needs_quotes s = list_ex (\<lambda>c. c = CHR '','' \<or> c = dquote \<or> c = CHR 0x0D \<or> c = CHR 0x0A) s"

definition csv_field :: "string \<Rightarrow> string" where
  "csv_field s =
     (if needs_quotes s
      then dquote # concat (map (\<lambda>c. if c = dquote then [dquote, dquote] else [c]) s) @ [dquote]
      else s)"

fun join_fields :: "string list \<Rightarrow> string" where
  "join_fields [] = []"
| "join_fields [f] = f"
| "join_fields (f # g # fs) = f @ CHR '','' # join_fields (g # fs)"

definition writerow :: "string list \<Rightarrow> string" where
  "writerow vals =
     (if vals = [[]] then [dquote, dquote, CHR 0x0D, CHR 0x0A]
      else join_fields (map csv_field vals) @ [CHR 0x0D, CHR 0x0A])"

definition header :: "string list" where
  "header = [''Ticket_ID'', ''Complaint_ID'', ''Supplier'', ''Product'', ''Order_ID'', ''Issue'',
             ''Created_At'', ''Status'', ''Notes'']"

text \<open>
  At start-up every variant creates \<open>tickets.csv\<close> with the header row when the file does
  not exist, and leaves an existing file alone. \<open>None\<close> is the missing file.
\<close>

definition init_tickets_file :: "string option \<Rightarrow> string" where
  "init_tickets_file f = (case f of None \<Rightarrow> writerow header | Some content \<Rightarrow> content)"

section \<open>The world around a run\<close>

text \<open>
  A call of \<open>send_email_alert\<close> that was made, with what it returned. The run throws the
  returned pair away; the log keeps it so that the calls can be counted.
\<close>

datatype alert =
    TicketAlert ticket string "exn + bool \<times> string"
  | SupplierAlert string cell nat "exn + bool \<times> string"

text \<open>
  The state a run changes: the contents of \<open>tickets.csv\<close>, how many tickets this process
  has created (each creation reads the clock once), and the alert calls made.
  Writing to the file is taken to succeed.
\<close>

record world =
  tickets_csv :: string
  created :: nat
  alerts :: "alert list"

text \<open>
  The mail server in one SMTP session: each step returns (\<open>None\<close>) or raises an exception
  whose text is given.
\<close>

record smtp_session =
  connect :: "string \<Rightarrow> int \<Rightarrow> string option"
  starttls :: "string option"
  login :: "string \<Rightarrow> string \<Rightarrow> string option"
  sendmail :: "string \<Rightarrow> string \<Rightarrow> string \<times> string \<Rightarrow> string option"
  quit :: "string option"

text \<open>
  What a run reads from outside: the clock at the \<open>k\<close>-th ticket creation, as
  \<open>int(time.time()*1000)\<close> and \<open>datetime.now().isoformat(sep=' ', timespec='seconds')\<close>, and
  the behaviour of the mail server at the \<open>k\<close>-th alert, and what the remote model of
  variant 2 answers to a complaint text (the message content, or an exception raised on the
  way to it).
\<close>

record outside =
  clock :: "nat \<Rightarrow> int \<times> string"
  smtp :: "nat \<Rightarrow> smtp_session"
  openai :: "string \<Rightarrow> exn + string"

text \<open>The module-level configuration read from the environment at start-up.\<close>

record config =
  SMTP_SERVER :: "string option"
  SMTP_PORT :: int
  EMAIL_USERNAME :: "string option"
  EMAIL_PASSWORD :: "string option"
  USE_EMAIL_ALERTS :: bool

text \<open>The sidebar settings of a run.\<close>

record settings =
  auto_ticket_threshold :: int
  email_alerts :: bool
  email_recipient :: string

text \<open>
  Appending one ticket, as \<open>create_ticket_entry\<close> does:
  \<^verbatim>\<open>
  with open(TICKETS_FILE, "a", newline="", encoding="utf-8") as f:
      writer = csv.writer(f)
      writer.writerow(ticket.values())
  \<close>
\<close>

definition append_ticket :: "ticket \<Rightarrow> string \<Rightarrow> string" where
  "append_ticket ticket content = content @ writerow (ticket_values ticket)"

section \<open>Ticket creation\<close>

text \<open>
  \<open>create_ticket_entry(complaint_row, issue_text)\<close> is the same in the three variants:
  \<^verbatim>\<open>
  ticket_id = f"T{int(time.time()*1000)}"
  created_at = datetime.now().isoformat(sep=' ', timespec='seconds')
  ticket = {"Ticket_ID": ticket_id,
            "Complaint_ID": complaint_row.get("Complaint_ID", ""),
            "Supplier": complaint_row.get("Supplier", ""),
            "Product": complaint_row.get("Product", ""),
            "Order_ID": complaint_row.get("Order_ID", ""),
            "Issue": issue_text, "Created_At": created_at, "Status": "Open", "Notes": ""}
  with open(TICKETS_FILE, "a", newline="", encoding="utf-8") as f:
      csv.writer(f).writerow(ticket.values())
  return ticket
  \<close>
\<close>

definition create_ticket_entry ::
    "outside \<Rightarrow> row \<Rightarrow> string \<Rightarrow> world \<Rightarrow> ticket \<times> world" where
  "create_ticket_entry out complaint_row issue_text w =
     (let (ms, created_at) = clock out (created w);
          ticket = \<lparr>Ticket_ID = CHR ''T'' # str_int ms,
                    Complaint_ID = get complaint_row ''Complaint_ID'',
                    Supplier = get complaint_row ''Supplier'',
                    Product = get complaint_row ''Product'',
                    Order_ID = get complaint_row ''Order_ID'',
                    Issue = issue_text,
                    Created_At = created_at,
                    Status = ''Open'',
                    Notes = []\<rparr>
      in (ticket, w\<lparr>tickets_csv := append_ticket ticket (tickets_csv w),
                     created := Suc (created w)\<rparr>))"

section \<open>Email alerts\<close>

text \<open>Statements that may raise are values of \<open>exn + 'a\<close>; \<open>Inl\<close> is the exception.\<close>

definition then_do :: "exn + 'a \<Rightarrow> ('a \<Rightarrow> exn + 'b) \<Rightarrow> exn + 'b" where
  "then_do m f = (case m of Inl e \<Rightarrow> Inl e | Inr x \<Rightarrow> f x)"

text \<open>\<open>try: body  except Exception as e: handler(e)\<close>.\<close>

definition try_except :: "exn + 'a \<Rightarrow> (exn \<Rightarrow> exn + 'a) \<Rightarrow> exn + 'a" where
  "try_except body handler = (case body of Inl e \<Rightarrow> handler e | Inr x \<Rightarrow> Inr x)"

definition raise_if :: "string option \<Rightarrow> exn + unit" where
  "raise_if r = (case r of None \<Rightarrow> Inr () | Some m \<Rightarrow> Inl (OtherError m))"

text \<open>
  The SMTP conversation of the app's \<open>send_email_alert\<close>:
  \<^verbatim>\<open>
  server = smtplib.SMTP(SMTP_SERVER, SMTP_PORT)
  server.starttls()
  server.login(EMAIL_USERNAME, EMAIL_PASSWORD)
  server.sendmail(EMAIL_USERNAME, recipient, msg.as_string())
  server.quit()
  \<close>
  The message is kept as its subject and body; building it and rendering it with
  \<open>msg.as_string()\<close> is taken not to raise.
\<close>

definition deliver ::
    "smtp_session \<Rightarrow> string \<Rightarrow> int \<Rightarrow> string \<Rightarrow> string \<Rightarrow> string \<Rightarrow> string \<times> string
       \<Rightarrow> exn + unit" where
  "deliver srv server port user password recipient msg =
     then_do (raise_if (connect srv server port)) (\<lambda>_.
     then_do (raise_if (starttls srv)) (\<lambda>_.
     then_do (raise_if (login srv user password)) (\<lambda>_.
     then_do (raise_if (sendmail srv user recipient msg)) (\<lambda>_.
     raise_if (quit srv)))))"

definition ticket_body :: "ticket \<Rightarrow> string" where
  "ticket_body ticket =
     ''New Supplier Ticket Created'' @ [CHR 0x0A, CHR 0x0A]
     @ ''Ticket ID: '' @ Ticket_ID ticket @ [CHR 0x0A]
     @ ''Supplier: '' @ str_cell (Supplier ticket) @ [CHR 0x0A]
     @ ''Complaint ID: '' @ str_cell (Complaint_ID ticket) @ [CHR 0x0A]
     @ ''Product: '' @ str_cell (Product ticket) @ [CHR 0x0A]
     @ ''Issue: '' @ Issue ticket @ [CHR 0x0A]
     @ ''Created At: '' @ Created_At ticket @ [CHR 0x0A]"

text \<open>
  \<open>send_email_alert(ticket, recipient)\<close> of variants 1 and 3. The guard
  \<open>not (SMTP_SERVER and EMAIL_USERNAME and EMAIL_PASSWORD)\<close> holds when one of the three is
  unset or empty; everything after it runs inside \<open>try\<close>, and the handler returns
  \<open>(False, str(e))\<close>. The variants differ in the subject line (and in what they print).
\<close>

definition send_ticket_mail ::
    "config \<Rightarrow> smtp_session \<Rightarrow> string \<Rightarrow> ticket \<Rightarrow> string \<Rightarrow> exn + bool \<times> string" where
  "send_ticket_mail cfg srv subject ticket recipient =
     (case (SMTP_SERVER cfg, EMAIL_USERNAME cfg, EMAIL_PASSWORD cfg) of
        (Some server, Some user, Some password) \<Rightarrow>
          if server = [] \<or> user = [] \<or> password = []
          then Inr (False, ''Email settings not configured.'')
          else try_except
                 (then_do
                    (deliver srv server (SMTP_PORT cfg) user password recipient
                       (subject, ticket_body ticket))
                    (\<lambda>_. Inr (True, ''Email sent successfully.'')))
                 (\<lambda>e. Inr (False, str_exn e))
      | _ \<Rightarrow> Inr (False, ''Email settings not configured.''))"

definition send_email_alert_v1 ::
    "config \<Rightarrow> smtp_session \<Rightarrow> ticket \<Rightarrow> string \<Rightarrow> exn + bool \<times> string" where
  "send_email_alert_v1 cfg srv ticket recipient =
     send_ticket_mail cfg srv (''[Meesho] New Supplier Ticket '' @ Ticket_ID ticket)
       ticket recipient"

definition send_email_alert_v3 ::
    "config \<Rightarrow> smtp_session \<Rightarrow> ticket \<Rightarrow> string \<Rightarrow> exn + bool \<times> string" where
  "send_email_alert_v3 cfg srv ticket recipient =
     send_ticket_mail cfg srv
       (''[Meesho Alert] Supplier '' @ str_cell (Supplier ticket) @ '' - '' @ Issue ticket)
       ticket recipient"

text \<open>
  \<open>send_email_alert(recipient, supplier, count)\<close> of variant 2, sent when a supplier's count
  exceeds the constant \<open>THRESHOLD = 3\<close>.
\<close>

definition THRESHOLD :: nat where
  "THRESHOLD = 3"

definition send_email_alert_v2 ::
    "config \<Rightarrow> smtp_session \<Rightarrow> string \<Rightarrow> cell \<Rightarrow> nat \<Rightarrow> exn + bool \<times> string" where
  "send_email_alert_v2 cfg srv recipient supplier count =
     (case (SMTP_SERVER cfg, EMAIL_USERNAME cfg, EMAIL_PASSWORD cfg) of
        (Some server, Some user, Some password) \<Rightarrow>
          if server = [] \<or> user = [] \<or> password = []
          then Inr (False, ''Email settings not configured.'')
          else try_except
                 (then_do
                    (deliver srv server (SMTP_PORT cfg) user password recipient
                       (''[ALERT] Supplier '' @ str_cell supplier @ '' has '' @ str_int (int count)
                          @ '' issues!'',
                        ''Hello,'' @ [CHR 0x0A, CHR 0x0A] @ ''The supplier *'' @ str_cell supplier
                          @ ''* has reached '' @ str_int (int count)
                          @ '' complaints in this batch upload.'' @ [CHR 0x0A]
                          @ ''This exceeds the threshold of '' @ str_int (int THRESHOLD) @ ''.''
                          @ [CHR 0x0A, CHR 0x0A] @ ''Please investigate immediately.''
                          @ [CHR 0x0A, CHR 0x0A] @ ''Regards,'' @ [CHR 0x0A]
                          @ ''Meesho AI Quality Agent''))
                    (\<lambda>_. Inr (True, ''Email alert sent successfully.'')))
                 (\<lambda>e. Inr (False, str_exn e))
      | _ \<Rightarrow> Inr (False, ''Email settings not configured.''))"

text \<open>
  The stand-alone module \<open>email_alerts.py\<close>. The two credentials that it reads from
  \<open>st.secrets\<close> when it is imported are parameters here. Its
  \<open>send_email_alert(to_email, supplier_name, issue_count)\<close>:
  \<^verbatim>\<open>
  try:
      with smtplib.SMTP_SSL("smtp.gmail.com", 465) as server:
          server.login(EMAIL_USER, EMAIL_PASS)
          server.send_message(msg)
      st.success(f"Email sent to {to_email} for supplier {supplier_name}")
  except Exception as e:
      st.error(f"Error sending email: {e}")
  \<close>
  There is no \<open>return\<close> statement: the caller gets \<open>None\<close> either way, here the \<open>None\<close> of
  an option of the pair the other variants return. What the page shows is given beside it.
  (The emoji of the subject and of the two page messages are left out.)
\<close>

datatype shown = Success string | Error string

definition email_alerts_body :: "cell \<Rightarrow> nat \<Rightarrow> string" where
  "email_alerts_body supplier_name issue_count =
     [CHR 0x0A] @ ''    Hi Team,'' @ [CHR 0x0A, CHR 0x0A]
     @ ''    The supplier **'' @ str_cell supplier_name @ ''** has reported **''
     @ str_int (int issue_count) @ '' issues** in the latest upload.'' @ [CHR 0x0A, CHR 0x0A]
     @ ''    Please review the supplier performance and take necessary action.''
     @ [CHR 0x0A, CHR 0x0A]
     @ ''    Regards,'' @ [CHR 0x0A]
     @ ''    Meesho Supplier Quality AI Agent'' @ [CHR 0x0A] @ ''    ''"

definition email_alerts_send_email_alert ::
    "smtp_session \<Rightarrow> string \<Rightarrow> string \<Rightarrow> string \<Rightarrow> cell \<Rightarrow> nat
       \<Rightarrow> (exn + (bool \<times> string) option) \<times> shown" where
  "email_alerts_send_email_alert srv EMAIL_USER EMAIL_PASS to_email supplier_name issue_count =
     (case then_do (raise_if (connect srv ''smtp.gmail.com'' 465)) (\<lambda>_.
           then_do (raise_if (login srv EMAIL_USER EMAIL_PASS)) (\<lambda>_.
           then_do (raise_if (sendmail srv EMAIL_USER to_email
                      (''Supplier Alert: '' @ str_cell supplier_name
                         @ '' exceeded issue threshold'',
                       email_alerts_body supplier_name issue_count))) (\<lambda>_.
           raise_if (quit srv)))) of
        Inr _ \<Rightarrow> (Inr None, Success (''Email sent to '' @ to_email @ '' for supplier ''
                                        @ str_cell supplier_name))
      | Inl e \<Rightarrow> (Inr None, Error (''Error sending email: '' @ str_exn e)))"

section \<open>The run\<close>

text \<open>
  \<open>df["Message"].apply(call_openai_classify)\<close> in variants 1 and 3: the classifier calls
  \<open>text.lower()\<close>, which only a string has; a number or a missing value raises
  \<open>AttributeError\<close> and ends the run.
\<close>

fun apply_classify :: "(string \<Rightarrow> category) \<Rightarrow> cell list \<Rightarrow> exn + category list" where
  "apply_classify classify [] = Inr []"
| "apply_classify classify (Str s # rest) =
     then_do (apply_classify classify rest) (\<lambda>cats. Inr (classify s # cats))"
| "apply_classify classify (v # rest) = Inl (AttributeError ''lower'')"

text \<open>\<open>df[[c1, c2, ...]]\<close>, shown after classification: every listed column must exist.\<close>

fun require_columns :: "frame \<Rightarrow> string list \<Rightarrow> exn + unit" where
  "require_columns df [] = Inr ()"
| "require_columns df (c # cs) =
     (if c \<in> set (columns df) then require_columns df cs else Inl (KeyError c))"

text \<open>
  \<open>Series.value_counts()\<close>: missing values are dropped, every distinct value is paired with
  its number of occurrences, most frequent first (equal counts in order of first occurrence).
\<close>

definition value_counts :: "cell list \<Rightarrow> (cell \<times> nat) list" where
  "value_counts vs =
     (let present = filter (\<lambda>v. v \<noteq> NaN) vs
      in sort_key (\<lambda>(v, n). - int n)
           (map (\<lambda>v. (v, count_list present v)) (rev (remdups (rev present)))))"

text \<open>
  \<open>df.groupby("Supplier")["Complaint_ID"].count()\<close>: rows with a missing key are dropped, the
  groups come in sorted key order (numbers before strings), and the count of a group is the
  number of its rows whose \<open>Complaint_ID\<close> is not missing.
\<close>

fun cell_key :: "cell \<Rightarrow> nat \<times> rat \<times> string" where
  "cell_key (Num n) = (0, of_int n, [])"
| "cell_key (Float q printed) = (0, q, [])"
| "cell_key (Bool b) = (0, if b then 1 else 0, [])"
| "cell_key (Str s) = (1, 0, s)"
| "cell_key NaN = (2, 0, [])"

definition groupby_count :: "cell list \<Rightarrow> cell list \<Rightarrow> (cell \<times> nat) list" where
  "groupby_count keys vals =
     map (\<lambda>k. (k, length (filter (\<lambda>(k', v). k' = k \<and> v \<noteq> NaN) (zip keys vals))))
       (sort_key cell_key (remdups (filter (\<lambda>k. k \<noteq> NaN) keys)))"

text \<open>
  The loop over the rows, the same in the three variants up to the alert:
  \<^verbatim>\<open>
  for _, row in df.iterrows():
      if row["AI_Category"] == "Supplier Issue":
          ticket = create_ticket_entry(row, "Supplier Issue detected from complaint text")
          new_tickets.append(ticket)
          <alert>
  \<close>
  An alert takes the ticket and the world, and may raise.
\<close>

type_synonym alerting = "ticket \<Rightarrow> world \<Rightarrow> (exn + unit) \<times> world"

fun row_tickets ::
    "outside \<Rightarrow> alerting \<Rightarrow> (row \<times> category) list \<Rightarrow> world \<Rightarrow> (exn + ticket list) \<times> world" where
  "row_tickets out alert [] w = (Inr [], w)"
| "row_tickets out alert ((row, cat) # rest) w =
     (if cat = SupplierIssue
      then (let (ticket, w1) =
                  create_ticket_entry out row ''Supplier Issue detected from complaint text'' w
            in case alert ticket w1 of
                 (Inl e, w2) \<Rightarrow> (Inl e, w2)
               | (Inr _, w2) \<Rightarrow>
                   (case row_tickets out alert rest w2 of
                      (Inl e, w3) \<Rightarrow> (Inl e, w3)
                    | (Inr new_tickets, w3) \<Rightarrow> (Inr (ticket # new_tickets), w3)))
      else row_tickets out alert rest w)"

text \<open>
  The loop over the supplier counts:
  \<^verbatim>\<open>
  for supplier, cnt in supplier_counts.items():
      if cnt >= auto_ticket_threshold:
          sample_row = df[df["Supplier"] == supplier].iloc[0].to_dict()
          ticket = create_ticket_entry(sample_row, <issue text>)
          new_tickets.append(ticket)
          <alert>
  \<close>
  \<open>df["Supplier"] == supplier\<close> is never true of a missing value; \<open>.iloc[0]\<close> raises
  \<open>IndexError\<close> when no row is selected.
\<close>

definition sample_row :: "frame \<Rightarrow> cell \<Rightarrow> exn + row" where
  "sample_row df supplier =
     (case find (\<lambda>r. supplier \<noteq> NaN \<and> map_of r ''Supplier'' = Some supplier) (iterrows df) of
        None \<Rightarrow> Inl IndexError
      | Some r \<Rightarrow> Inr r)"

fun aggregate_tickets ::
    "outside \<Rightarrow> alerting \<Rightarrow> (cell \<Rightarrow> nat \<Rightarrow> string) \<Rightarrow> frame \<Rightarrow> int \<Rightarrow> (cell \<times> nat) list
       \<Rightarrow> world \<Rightarrow> (exn + ticket list) \<times> world" where
  "aggregate_tickets out alert issue df threshold [] w = (Inr [], w)"
| "aggregate_tickets out alert issue df threshold ((supplier, cnt) # rest) w =
     (if int cnt \<ge> threshold
      then (case sample_row df supplier of
              Inl e \<Rightarrow> (Inl e, w)
            | Inr r \<Rightarrow>
               (let (ticket, w1) = create_ticket_entry out r (issue supplier cnt) w
                in case alert ticket w1 of
                     (Inl e, w2) \<Rightarrow> (Inl e, w2)
                   | (Inr _, w2) \<Rightarrow>
                       (case aggregate_tickets out alert issue df threshold rest w2 of
                          (Inl e, w3) \<Rightarrow> (Inl e, w3)
                        | (Inr new_tickets, w3) \<Rightarrow> (Inr (ticket # new_tickets), w3))))
      else aggregate_tickets out alert issue df threshold rest w)"

text \<open>
  A call \<open>send_email_alert(ticket, email_recipient)\<close> as a statement: the call is logged
  with its result, the returned pair is dropped, an exception would end the run.
\<close>

definition call_send_email_alert ::
    "(smtp_session \<Rightarrow> ticket \<Rightarrow> string \<Rightarrow> exn + bool \<times> string) \<Rightarrow> outside \<Rightarrow> string \<Rightarrow> alerting" where
  "call_send_email_alert send out recipient ticket w =
     (let r = send (smtp out (length (alerts w))) ticket recipient;
          w' = w\<lparr>alerts := alerts w @ [TicketAlert ticket recipient r]\<rparr>
      in case r of Inl e \<Rightarrow> (Inl e, w') | Inr _ \<Rightarrow> (Inr (), w'))"

definition no_alert :: alerting where
  "no_alert ticket w = (Inr (), w)"

text \<open>Variant 1: \<open>if email_alerts and USE_EMAIL_ALERTS: send_email_alert(...)\<close>.\<close>

definition alert_v1 :: "outside \<Rightarrow> config \<Rightarrow> settings \<Rightarrow> alerting" where
  "alert_v1 out cfg st =
     (if email_alerts st \<and> USE_EMAIL_ALERTS cfg
      then call_send_email_alert (send_email_alert_v1 cfg) out (email_recipient st)
      else no_alert)"

text \<open>Variant 3: \<open>if email_alerts: send_email_alert(...)\<close>.\<close>

definition alert_v3 :: "outside \<Rightarrow> config \<Rightarrow> settings \<Rightarrow> alerting" where
  "alert_v3 out cfg st =
     (if email_alerts st
      then call_send_email_alert (send_email_alert_v3 cfg) out (email_recipient st)
      else no_alert)"

text \<open>
  Variant 1, from the button press on: classify, show four columns, count the suppliers of
  the rows classified \<open>Supplier Issue\<close>, then the two loops. The result is \<open>new_tickets\<close>.
  (The page gets this far only with \<open>OPENAI_API_KEY\<close> set: variants 1 and 2 stop at start-up
  without it.)
\<close>

definition supplier_issue_counts :: "cell list \<Rightarrow> category list \<Rightarrow> (cell \<times> nat) list" where
  "supplier_issue_counts suppliers cats =
     value_counts (map fst (filter (\<lambda>(s, c). c = SupplierIssue) (zip suppliers cats)))"

definition issue_v1 :: "cell \<Rightarrow> nat \<Rightarrow> string" where
  "issue_v1 supplier cnt = ''Aggregate alert: '' @ str_int (int cnt) @ '' supplier issues in upload''"

text \<open>
  Variant 3 takes \<open>supplier\<close> and \<open>cnt\<close> from a row of the frame of counts
  (\<open>supplier_counts.iterrows()\<close>), which has the common type of its two columns: when the
  suppliers are floats, the count is a float as well and prints as \<open>2.0\<close> (for the counts
  that occur, below \<open>10\<close> to the \<open>16\<close>).
\<close>

definition issue_v3 :: "cell \<Rightarrow> nat \<Rightarrow> string" where
  "issue_v3 supplier cnt =
     ''Aggregate alert: ''
     @ (case supplier of Float q printed \<Rightarrow> str_int (int cnt) @ ''.0'' | _ \<Rightarrow> str_int (int cnt))
     @ '' total complaints for '' @ str_cell supplier"

definition both_loops ::
    "outside \<Rightarrow> alerting \<Rightarrow> (cell \<Rightarrow> nat \<Rightarrow> string) \<Rightarrow> frame \<Rightarrow> int \<Rightarrow> category list
       \<Rightarrow> (cell \<times> nat) list \<Rightarrow> world \<Rightarrow> (exn + ticket list) \<times> world" where
  "both_loops out alert issue df threshold cats supplier_counts w =
     (case row_tickets out alert (zip (iterrows df) cats) w of
        (Inl e, w1) \<Rightarrow> (Inl e, w1)
      | (Inr row_ts, w1) \<Rightarrow>
          (case aggregate_tickets out alert issue df threshold supplier_counts w1 of
             (Inl e, w2) \<Rightarrow> (Inl e, w2)
           | (Inr agg_ts, w2) \<Rightarrow> (Inr (row_ts @ agg_ts), w2)))"

definition run_v1 ::
    "outside \<Rightarrow> config \<Rightarrow> settings \<Rightarrow> frame \<Rightarrow> world \<Rightarrow> (exn + ticket list) \<times> world" where
  "run_v1 out cfg st df w =
     (case then_do (column df ''Message'') (\<lambda>messages.
           then_do (apply_classify call_openai_classify_v1 messages) (\<lambda>cats.
           then_do (require_columns df [''Complaint_ID'', ''Message'', ''Supplier'']) (\<lambda>_.
           then_do (column df ''Supplier'') (\<lambda>suppliers.
           Inr (cats, supplier_issue_counts suppliers cats))))) of
        Inl e \<Rightarrow> (Inl e, w)
      | Inr (cats, supplier_counts) \<Rightarrow>
          both_loops out (alert_v1 out cfg st) issue_v1 df (auto_ticket_threshold st) cats
            supplier_counts w)"

text \<open>
  Variant 3 differs in the classifier, in the alert, and in the counts, which it takes over
  all rows of a supplier:
  \<^verbatim>\<open>
  # FIXED COUNT: Count all complaints per supplier (not only Supplier Issues)
  supplier_counts = df.groupby("Supplier")["Complaint_ID"].count().reset_index(name="count")
  \<close>
\<close>

definition run_v3 ::
    "outside \<Rightarrow> config \<Rightarrow> settings \<Rightarrow> frame \<Rightarrow> world \<Rightarrow> (exn + ticket list) \<times> world" where
  "run_v3 out cfg st df w =
     (case then_do (column df ''Message'') (\<lambda>messages.
           then_do (apply_classify call_openai_classify_v3 messages) (\<lambda>cats.
           then_do (require_columns df [''Complaint_ID'', ''Message'', ''Supplier'']) (\<lambda>_.
           then_do (column df ''Supplier'') (\<lambda>suppliers.
           then_do (column df ''Complaint_ID'') (\<lambda>ids.
           Inr (cats, groupby_count suppliers ids)))))) of
        Inl e \<Rightarrow> (Inl e, w)
      | Inr (cats, supplier_counts) \<Rightarrow>
          both_loops out (alert_v3 out cfg st) issue_v3 df (auto_ticket_threshold st) cats
            supplier_counts w)"

section \<open>Variant 2\<close>

text \<open>
  Variant 2 asks a remote model. Whatever goes wrong inside \<open>try\<close> gives \<open>Unknown\<close>:
  \<^verbatim>\<open>
  try:
      resp = openai.ChatCompletion.create(...)
      answer = resp["choices"][0]["message"]["content"].strip()
      if "supplier" in answer.lower(): return "Supplier Issue"
      if "logistic" in answer.lower(): return "Logistics Issue"
      return "Customer Issue"
  except Exception as e:
      st.warning(f"OpenAI error: {e}")
      return "Unknown"
  \<close>
\<close>

definition is_space :: "char \<Rightarrow> bool" where
  "is_space c = (c \<in> set [CHR '' '', CHR 0x09, CHR 0x0A, CHR 0x0B, CHR 0x0C, CHR 0x0D])"

definition strip :: "string \<Rightarrow> string" where
  "strip s = rev (dropWhile is_space (rev (dropWhile is_space s)))"

definition call_openai_classify_v2 :: "outside \<Rightarrow> string \<Rightarrow> category" where
  "call_openai_classify_v2 out text =
     (case openai out text of
        Inl e \<Rightarrow> Unknown
      | Inr content \<Rightarrow>
          (let answer = strip content in
           if str_in ''supplier'' (lower answer) then SupplierIssue
           else if str_in ''logistic'' (lower answer) then LogisticsIssue
           else CustomerIssue))"

definition ALERT_EMAIL :: string where
  "ALERT_EMAIL = ''yuvaneshbabu007@gmail.com''"

text \<open>
  \<^verbatim>\<open>
  for supplier, count in supplier_counts.items():
      if count > THRESHOLD:
          ok, msg = send_email_alert(ALERT_EMAIL, supplier, count)
  \<close>
\<close>

fun threshold_alerts ::
    "outside \<Rightarrow> config \<Rightarrow> (cell \<times> nat) list \<Rightarrow> world \<Rightarrow> (exn + unit) \<times> world" where
  "threshold_alerts out cfg [] w = (Inr (), w)"
| "threshold_alerts out cfg ((supplier, count) # rest) w =
     (if count > THRESHOLD
      then (let r = send_email_alert_v2 cfg (smtp out (length (alerts w))) ALERT_EMAIL supplier
                      count;
                w' = w\<lparr>alerts := alerts w @ [SupplierAlert ALERT_EMAIL supplier count r]\<rparr>
            in case r of Inl e \<Rightarrow> (Inl e, w') | Inr _ \<Rightarrow> threshold_alerts out cfg rest w')
      else threshold_alerts out cfg rest w)"

text \<open>
  How a run of variant 2 can stop without tickets: an exception, or the error shown when a
  required column is missing:
  \<^verbatim>\<open>
  required_cols = {"Complaint_ID", "Message", "Supplier", "Product"}
  if not required_cols.issubset(df.columns):
      st.error(f"Uploaded CSV must contain columns: {', '.join(required_cols)}")
  else:
      ...
  \<close>
\<close>

datatype stopped = Raised exn | MissingColumns

definition required_cols :: "string list" where
  "required_cols = [''Complaint_ID'', ''Message'', ''Supplier'', ''Product'']"

definition run_v2 ::
    "outside \<Rightarrow> config \<Rightarrow> settings \<Rightarrow> frame \<Rightarrow> world \<Rightarrow> (stopped + ticket list) \<times> world" where
  "run_v2 out cfg st df w =
     (if \<not> set required_cols \<subseteq> set (columns df) then (Inl MissingColumns, w)
      else
        (case then_do (column df ''Message'') (\<lambda>messages.
              then_do (require_columns df [''Complaint_ID'', ''Message'', ''Supplier'']) (\<lambda>_.
              then_do (column df ''Supplier'') (\<lambda>suppliers.
              (let cats = map (\<lambda>t. call_openai_classify_v2 out (str_cell t)) messages
               in Inr (cats, supplier_issue_counts suppliers cats))))) of
           Inl e \<Rightarrow> (Inl (Raised e), w)
         | Inr (cats, supplier_counts) \<Rightarrow>
             (case threshold_alerts out cfg supplier_counts w of
                (Inl e, w1) \<Rightarrow> (Inl (Raised e), w1)
              | (Inr _, w1) \<Rightarrow>
                  (case both_loops out no_alert issue_v1 df (auto_ticket_threshold st) cats
                          supplier_counts w1 of
                     (Inl e, w2) \<Rightarrow> (Inl (Raised e), w2)
                   | (Inr new_tickets, w2) \<Rightarrow> (Inr new_tickets, w2)))))"

section \<open>Reading the tickets file\<close>
















section \<open>Vocabulary of the statements\<close>

text \<open>
  The definitions of this section are not code of the app: they say, in terms of the upload
  and the clock, what the loops are then proved to produce.
\<close>

subsection \<open>Tickets\<close>

text \<open>
  The ticket that \<open>create_ticket_entry\<close> builds from a row and an issue text at the
  \<open>k\<close>-th reading of the clock, and the tickets built from a list of such pairs at
  successive readings.
\<close>

definition row_issue :: string where
  "row_issue = ''Supplier Issue detected from complaint text''"

definition ticket_at :: "outside \<Rightarrow> nat \<Rightarrow> row \<Rightarrow> string \<Rightarrow> ticket" where
  "ticket_at out k r issue_text =
     \<lparr>Ticket_ID = CHR ''T'' # str_int (fst (clock out k)),
      Complaint_ID = get r ''Complaint_ID'', Supplier = get r ''Supplier'',
      Product = get r ''Product'', Order_ID = get r ''Order_ID'', Issue = issue_text,
      Created_At = snd (clock out k), Status = ''Open'', Notes = []\<rparr>"

fun tickets_from :: "outside \<Rightarrow> nat \<Rightarrow> (row \<times> string) list \<Rightarrow> ticket list" where
  "tickets_from out k [] = []"
| "tickets_from out k ((r, issue_text) # rest) =
     ticket_at out k r issue_text # tickets_from out (Suc k) rest"

text \<open>
  The lines that \<open>csv.writer\<close> writes for a list of tickets, and the values of a ticket
  as cells, strings standing for themselves.
\<close>

definition ledger_lines :: "ticket list \<Rightarrow> string" where
  "ledger_lines ts = concat (map (\<lambda>t. writerow (ticket_values t)) ts)"




subsection \<open>Alerts\<close>

text \<open>
  \<open>logs_as alert logf\<close>: the alert never raises and does nothing but add \<open>logf k t\<close> to
  the log of calls, \<open>k\<close> being the number of earlier calls. \<open>alert_log\<close> collects what is
  added over a list of tickets, \<open>after_tickets\<close> is the world after creating them.
\<close>

definition logs_as :: "alerting \<Rightarrow> (nat \<Rightarrow> ticket \<Rightarrow> alert list) \<Rightarrow> bool" where
  "logs_as alert logf =
     (\<forall>t w. alert t w = (Inr (), w\<lparr>alerts := alerts w @ logf (length (alerts w)) t\<rparr>))"

fun alert_log :: "(nat \<Rightarrow> ticket \<Rightarrow> alert list) \<Rightarrow> nat \<Rightarrow> ticket list \<Rightarrow> alert list" where
  "alert_log logf k [] = []"
| "alert_log logf k (t # ts) = logf k t @ alert_log logf (k + length (logf k t)) ts"

definition after_tickets :: "(nat \<Rightarrow> ticket \<Rightarrow> alert list) \<Rightarrow> ticket list \<Rightarrow> world \<Rightarrow> world" where
  "after_tickets logf ts w =
     w\<lparr>tickets_csv := tickets_csv w @ ledger_lines ts,
       created := created w + length ts,
       alerts := alerts w @ alert_log logf (length (alerts w)) ts\<rparr>"

definition ticket_alert ::
    "(smtp_session \<Rightarrow> ticket \<Rightarrow> string \<Rightarrow> exn + bool \<times> string) \<Rightarrow> outside \<Rightarrow> string
       \<Rightarrow> nat \<Rightarrow> ticket \<Rightarrow> alert list" where
  "ticket_alert send out recipient k t = [TicketAlert t recipient (send (smtp out k) t recipient)]"

definition log_v1 :: "outside \<Rightarrow> config \<Rightarrow> settings \<Rightarrow> nat \<Rightarrow> ticket \<Rightarrow> alert list" where
  "log_v1 out cfg st =
     (if email_alerts st \<and> USE_EMAIL_ALERTS cfg
      then ticket_alert (send_email_alert_v1 cfg) out (email_recipient st)
      else (\<lambda>k t. []))"

definition log_v3 :: "outside \<Rightarrow> config \<Rightarrow> settings \<Rightarrow> nat \<Rightarrow> ticket \<Rightarrow> alert list" where
  "log_v3 out cfg st =
     (if email_alerts st
      then ticket_alert (send_email_alert_v3 cfg) out (email_recipient st)
      else (\<lambda>k t. []))"

text \<open>
  The guard of \<open>send_email_alert\<close>: server, user name and password are set and not empty.
\<close>

definition configured :: "config \<Rightarrow> bool" where
  "configured cfg =
     (case (SMTP_SERVER cfg, EMAIL_USERNAME cfg, EMAIL_PASSWORD cfg) of
        (Some server, Some user, Some password) \<Rightarrow> server \<noteq> [] \<and> user \<noteq> [] \<and> password \<noteq> []
      | _ \<Rightarrow> False)"

subsection \<open>Rows and counts\<close>

text \<open>
  The cell of a row under a column name, the category a row gets (none when its message is
  not a string), the rows classified \<open>SupplierIssue\<close>, and the two ways of counting the rows
  of a supplier: those classified \<open>SupplierIssue\<close>, and all that have a \<open>Complaint_ID\<close>.
\<close>

definition cell_of :: "string \<Rightarrow> row \<Rightarrow> cell" where
  "cell_of name r = (case map_of r name of Some v \<Rightarrow> v | None \<Rightarrow> NaN)"

definition classified :: "(string \<Rightarrow> category) \<Rightarrow> row \<Rightarrow> category option" where
  "classified classify r =
     (case map_of r ''Message'' of Some (Str m) \<Rightarrow> Some (classify m) | _ \<Rightarrow> None)"

text \<open>
  The batches on which a run of variant 1 or 3 gets as far as its tickets: the three columns
  that the run reads are there and every message is a string.
\<close>

definition is_str :: "cell \<Rightarrow> bool" where
  "is_str c = (case c of Str m \<Rightarrow> True | _ \<Rightarrow> False)"

definition string_messages :: "frame \<Rightarrow> bool" where
  "string_messages df =
     (list_all (\<lambda>c. c \<in> set (columns df)) [''Message'', ''Complaint_ID'', ''Supplier'']
      \<and> list_all (\<lambda>r. is_str (cell_of ''Message'' r)) (iterrows df))"

definition hits :: "(string \<Rightarrow> category) \<Rightarrow> frame \<Rightarrow> row list" where
  "hits classify df = filter (\<lambda>r. classified classify r = Some SupplierIssue) (iterrows df)"

definition strict_count :: "(string \<Rightarrow> category) \<Rightarrow> frame \<Rightarrow> cell \<Rightarrow> nat" where
  "strict_count classify df s =
     length (filter (\<lambda>r. cell_of ''Supplier'' r = s) (hits classify df))"

definition total_count :: "frame \<Rightarrow> cell \<Rightarrow> nat" where
  "total_count df s =
     length (filter (\<lambda>r. cell_of ''Supplier'' r = s \<and> cell_of ''Complaint_ID'' r \<noteq> NaN)
               (iterrows df))"

definition counts_v1 :: "frame \<Rightarrow> (cell \<times> nat) list" where
  "counts_v1 df = value_counts (map (cell_of ''Supplier'') (hits call_openai_classify_v1 df))"

definition counts_v3 :: "frame \<Rightarrow> (cell \<times> nat) list" where
  "counts_v3 df =
     groupby_count (map (cell_of ''Supplier'') (iterrows df))
       (map (cell_of ''Complaint_ID'') (iterrows df))"

text \<open>
  The rows and issue texts for which the two loops create tickets, and the aggregate
  tickets of a supplier among the tickets of a run: those that do not carry the issue text
  of the per-row tickets.
\<close>

definition row_items :: "(row \<times> category) list \<Rightarrow> (row \<times> string) list" where
  "row_items rcs = map (\<lambda>(r, c). (r, row_issue)) (filter (\<lambda>(r, c). c = SupplierIssue) rcs)"

definition agg_items ::
    "frame \<Rightarrow> (cell \<Rightarrow> nat \<Rightarrow> string) \<Rightarrow> int \<Rightarrow> (cell \<times> nat) list \<Rightarrow> (row \<times> string) list" where
  "agg_items df issue threshold counts =
     concat (map (\<lambda>(s, cnt).
       if int cnt \<ge> threshold
       then (case sample_row df s of Inr r \<Rightarrow> [(r, issue s cnt)] | Inl e \<Rightarrow> [])
       else []) counts)"

definition items_v1 :: "settings \<Rightarrow> frame \<Rightarrow> (row \<times> string) list" where
  "items_v1 st df =
     map (\<lambda>r. (r, row_issue)) (hits call_openai_classify_v1 df)
     @ agg_items df issue_v1 (auto_ticket_threshold st) (counts_v1 df)"

definition items_v3 :: "settings \<Rightarrow> frame \<Rightarrow> (row \<times> string) list" where
  "items_v3 st df =
     map (\<lambda>r. (r, row_issue)) (hits call_openai_classify_v3 df)
     @ agg_items df issue_v3 (auto_ticket_threshold st) (counts_v3 df)"

definition aggregates_for :: "cell \<Rightarrow> ticket list \<Rightarrow> ticket list" where
  "aggregates_for s ts = filter (\<lambda>t. Supplier t = s \<and> Issue t \<noteq> row_issue) ts"

subsection \<open>Text\<close>

text \<open>
  The number that a string of decimal digits denotes; the doubling of quotes inside a quoted
  field; the characters that make \<open>csv.writer\<close> quote a field.
\<close>

definition digits_value :: "string \<Rightarrow> int" where
  "digits_value s = foldl (\<lambda>a c. 10 * a + (of_char c - 48)) 0 s"

text \<open>The number that a ticket identifier shows after its first character.\<close>

definition ticket_number :: "string \<Rightarrow> int" where
  "ticket_number tid =
     (let s = tl tid
      in if take 1 s = ''-'' then - digits_value (tl s) else digits_value s)"



subsection \<open>An example upload\<close>

text \<open>
  Two complaints about one supplier, the first about a wrong colour, the second about a late
  arrival; a clock that advances by a millisecond per ticket, and one that stands still; a
  mail server that accepts everything, and one that refuses the login; the settings with a
  threshold of 1 and alerts ticked; the environment with and without \<open>USE_EMAIL_ALERTS\<close>;
  the tickets file freshly initialised.
\<close>

definition ex_session :: smtp_session where
  "ex_session = \<lparr>connect = (\<lambda>server port. None), starttls = None,
                  login = (\<lambda>user password. None), sendmail = (\<lambda>sender recipient msg. None),
                  quit = None\<rparr>"

definition ex_session_refusing :: smtp_session where
  "ex_session_refusing =
     ex_session\<lparr>login := (\<lambda>user password. Some ''Username and Password not accepted'')\<rparr>"

definition ex_session_rejecting :: smtp_session where
  "ex_session_rejecting =
     ex_session\<lparr>sendmail := (\<lambda>sender recipient msg. Some ''Recipient address rejected'')\<rparr>"

definition ex_outside :: outside where
  "ex_outside = \<lparr>clock = (\<lambda>k. (1700000000000 + int k, ''2023-11-14 22:13:20'')),
                  smtp = (\<lambda>k. ex_session),
                  openai = (\<lambda>t. Inr ''Customer Issue'')\<rparr>"

definition ex_frozen :: outside where
  "ex_frozen = ex_outside\<lparr>clock := (\<lambda>k. (1700000000000, ''2023-11-14 22:13:20''))\<rparr>"

definition ex_config :: config where
  "ex_config = \<lparr>SMTP_SERVER = Some ''smtp.gmail.com'', SMTP_PORT = 587,
                 EMAIL_USERNAME = Some ''agent@example.com'', EMAIL_PASSWORD = Some ''secret'',
                 USE_EMAIL_ALERTS = True\<rparr>"

definition ex_config_off :: config where
  "ex_config_off = ex_config\<lparr>USE_EMAIL_ALERTS := False\<rparr>"

definition ex_settings :: settings where
  "ex_settings = \<lparr>auto_ticket_threshold = 1, email_alerts = True,
                   email_recipient = ''quality@example.com''\<rparr>"

definition ex_frame :: frame where
  "ex_frame = \<lparr>columns = [''Complaint_ID'', ''Supplier'', ''Product'', ''Message''],
                cells = [[Str ''C1'', Str ''Acme'', Str ''Shoe'', Str ''Wrong color received''],
                         [Str ''C2'', Str ''Acme'', Str ''Shoe'', Str ''Arrived late'']]\<rparr>"

definition ex_frame_no_product :: frame where
  "ex_frame_no_product =
     \<lparr>columns = [''Complaint_ID'', ''Supplier'', ''Message''],
      cells = [[Str ''C1'', Str ''Acme'', Str ''Wrong color received'']]\<rparr>"

text \<open>
  An upload whose second row has an empty \<open>Message\<close>, which \<open>read_csv\<close> gives as the missing
  value, and a remote model that answers \<open>Supplier Issue\<close> for the message of the first row.
\<close>

definition ex_frame_blank :: frame where
  "ex_frame_blank =
     \<lparr>columns = [''Complaint_ID'', ''Supplier'', ''Product'', ''Message''],
      cells = [[Str ''C1'', Str ''Acme'', Str ''Shoe'', Str ''Wrong color received''],
               [Str ''C2'', Str ''Acme'', Str ''Shoe'', NaN]]\<rparr>"

definition ex_remote :: outside where
  "ex_remote =
     ex_outside\<lparr>openai := (\<lambda>t. if t = ''Wrong color received'' then Inr ''Supplier Issue''
                                 else Inr ''Customer Issue'')\<rparr>"

definition ex_world :: world where
  "ex_world = \<lparr>tickets_csv = init_tickets_file None, created = 0, alerts = []\<rparr>"





section \<open>Properties of the text operations\<close>

lemma starts_with_iff: "starts_with w s \<longleftrightarrow> prefix w s"
  by (induction w s rule: starts_with.induct) auto

lemma str_in_iff: "str_in w s \<longleftrightarrow> sublist w s"
proof (induction s)
  case Nil
  then show ?case by auto
next
  case (Cons c cs)
  then show ?case by (auto simp: starts_with_iff sublist_Cons_right)
qed

section \<open>What the loops produce\<close>

lemma create_ticket_entry_eq:
  "create_ticket_entry out r issue_text w =
     (ticket_at out (created w) r issue_text,
      w\<lparr>tickets_csv := tickets_csv w @ writerow (ticket_values (ticket_at out (created w) r issue_text)),
        created := Suc (created w)\<rparr>)"
  by (simp add: create_ticket_entry_def append_ticket_def ticket_at_def Let_def
      split: prod.split)

lemma after_tickets_Nil: "after_tickets logf [] w = w"
  by (simp add: after_tickets_def ledger_lines_def)

lemma after_tickets_Cons:
  "after_tickets logf (t # ts) w =
     after_tickets logf ts
       (w\<lparr>tickets_csv := tickets_csv w @ writerow (ticket_values t),
          created := Suc (created w),
          alerts := alerts w @ logf (length (alerts w)) t\<rparr>)"
  by (simp add: after_tickets_def ledger_lines_def)

lemma row_tickets_result:
  assumes "logs_as alert logf"
  shows "row_tickets out alert rcs w =
           (Inr (tickets_from out (created w) (row_items rcs)),
            after_tickets logf (tickets_from out (created w) (row_items rcs)) w)"
proof (induction rcs arbitrary: w)
  case Nil
  show ?case by (simp add: row_items_def after_tickets_Nil)
next
  case (Cons rc rcs)
  obtain r c where rc: "rc = (r, c)" by (cases rc)
  show ?case
  proof (cases "c = SupplierIssue")
    case False
    with Cons rc show ?thesis by (simp add: row_items_def)
  next
    case True
    let ?t = "ticket_at out (created w) r row_issue"
    let ?w1 = "w\<lparr>tickets_csv := tickets_csv w @ writerow (ticket_values ?t),
          created := Suc (created w)\<rparr>"
    let ?w2 = "w\<lparr>tickets_csv := tickets_csv w @ writerow (ticket_values ?t),
          created := Suc (created w),
          alerts := alerts w @ logf (length (alerts w)) ?t\<rparr>"
    let ?rest = "tickets_from out (Suc (created w)) (row_items rcs)"
    have c: "create_ticket_entry out r ''Supplier Issue detected from complaint text'' w
               = (?t, ?w1)"
      by (simp add: create_ticket_entry_eq row_issue_def)
    have a: "alert ?t ?w1 = (Inr (), ?w2)"
      using assms by (simp add: logs_as_def)
    have ih: "row_tickets out alert rcs ?w2 = (Inr ?rest, after_tickets logf ?rest ?w2)"
      using Cons [of ?w2] by simp
    have items: "row_items (rc # rcs) = (r, row_issue) # row_items rcs"
      using True rc by (simp add: row_items_def)
    have "row_tickets out alert (rc # rcs) w = (Inr (?t # ?rest), after_tickets logf ?rest ?w2)"
      unfolding rc True row_tickets.simps using c a ih by simp
    then show ?thesis
      by (simp add: items after_tickets_Cons)
  qed
qed

lemma aggregate_tickets_result:
  assumes "logs_as alert logf"
    and "\<And>s cnt. (s, cnt) \<in> set counts \<Longrightarrow> \<exists>r. sample_row df s = Inr r"
  shows "aggregate_tickets out alert issue df threshold counts w =
           (Inr (tickets_from out (created w) (agg_items df issue threshold counts)),
            after_tickets logf
              (tickets_from out (created w) (agg_items df issue threshold counts)) w)"
  using assms(2)
proof (induction counts arbitrary: w)
  case Nil
  show ?case by (simp add: agg_items_def after_tickets_Nil)
next
  case (Cons sc counts)
  obtain s cnt where sc: "sc = (s, cnt)" by (cases sc)
  have rest: "\<And>s cnt. (s, cnt) \<in> set counts \<Longrightarrow> \<exists>r. sample_row df s = Inr r"
    using Cons.prems by auto
  show ?case
  proof (cases "int cnt \<ge> threshold")
    case False
    have "agg_items df issue threshold (sc # counts) = agg_items df issue threshold counts"
      using False sc by (simp add: agg_items_def)
    with Cons.IH [OF rest] False sc show ?thesis by simp
  next
    case True
    obtain r where r: "sample_row df s = Inr r"
      using Cons.prems [of s cnt] sc by auto
    let ?t = "ticket_at out (created w) r (issue s cnt)"
    let ?w1 = "w\<lparr>tickets_csv := tickets_csv w @ writerow (ticket_values ?t),
          created := Suc (created w)\<rparr>"
    let ?w2 = "w\<lparr>tickets_csv := tickets_csv w @ writerow (ticket_values ?t),
          created := Suc (created w),
          alerts := alerts w @ logf (length (alerts w)) ?t\<rparr>"
    let ?rest = "tickets_from out (Suc (created w)) (agg_items df issue threshold counts)"
    have c: "create_ticket_entry out r (issue s cnt) w = (?t, ?w1)"
      by (simp add: create_ticket_entry_eq)
    have a: "alert ?t ?w1 = (Inr (), ?w2)"
      using assms(1) by (simp add: logs_as_def)
    have ih: "aggregate_tickets out alert issue df threshold counts ?w2
                = (Inr ?rest, after_tickets logf ?rest ?w2)"
      using Cons.IH [OF rest] by simp
    have items: "agg_items df issue threshold (sc # counts)
                   = (r, issue s cnt) # agg_items df issue threshold counts"
      using True sc r by (simp add: agg_items_def)
    have "aggregate_tickets out alert issue df threshold (sc # counts) w
            = (Inr (?t # ?rest), after_tickets logf ?rest ?w2)"
      unfolding sc aggregate_tickets.simps using True r c a ih by simp
    then show ?thesis
      by (simp add: items after_tickets_Cons)
  qed
qed

lemma tickets_from_append:
  "tickets_from out k (xs @ ys) = tickets_from out k xs @ tickets_from out (k + length xs) ys"
  by (induction xs arbitrary: k) auto

lemma length_tickets_from: "length (tickets_from out k xs) = length xs"
  by (induction xs arbitrary: k) auto

lemma alert_log_append:
  "alert_log logf k (xs @ ys)
     = alert_log logf k xs @ alert_log logf (k + length (alert_log logf k xs)) ys"
  by (induction xs arbitrary: k) (auto simp: add.assoc)

lemma after_tickets_append:
  "after_tickets logf (xs @ ys) w = after_tickets logf ys (after_tickets logf xs w)"
  by (simp add: after_tickets_def ledger_lines_def alert_log_append)

lemma created_after_tickets: "created (after_tickets logf ts w) = created w + length ts"
  by (simp add: after_tickets_def)

lemma both_loops_result:
  assumes "logs_as alert logf"
    and "\<And>s cnt. (s, cnt) \<in> set counts \<Longrightarrow> \<exists>r. sample_row df s = Inr r"
  shows "both_loops out alert issue df threshold cats counts w =
           (Inr (tickets_from out (created w)
                   (row_items (zip (iterrows df) cats) @ agg_items df issue threshold counts)),
            after_tickets logf
              (tickets_from out (created w)
                 (row_items (zip (iterrows df) cats) @ agg_items df issue threshold counts)) w)"
  by (simp add: both_loops_def row_tickets_result [OF assms(1)]
      aggregate_tickets_result [OF assms] tickets_from_append after_tickets_append
      created_after_tickets length_tickets_from)

lemma logs_as_no_alert: "logs_as no_alert (\<lambda>k t. [])"
  by (simp add: logs_as_def no_alert_def)

lemma send_ticket_mail_returns:
  "\<exists>ok detail. send_ticket_mail cfg srv subject ticket recipient = Inr (ok, detail)"
  by (auto simp: send_ticket_mail_def try_except_def then_do_def
      split: option.split sum.split)

lemma logs_as_call_send:
  assumes "\<And>srv t r. \<exists>p. send srv t r = Inr p"
  shows "logs_as (call_send_email_alert send out recipient) (ticket_alert send out recipient)"
  unfolding logs_as_def
proof (intro allI)
  fix t and w :: world
  obtain p where "send (smtp out (length (alerts w))) t recipient = Inr p"
    using assms by blast
  then show "call_send_email_alert send out recipient t w =
          (Inr (), w\<lparr>alerts := alerts w @ ticket_alert send out recipient (length (alerts w)) t\<rparr>)"
    by (simp add: call_send_email_alert_def ticket_alert_def Let_def)
qed

lemma logs_as_alert_v1: "logs_as (alert_v1 out cfg st) (log_v1 out cfg st)"
  by (simp add: alert_v1_def log_v1_def logs_as_no_alert logs_as_call_send
      send_email_alert_v1_def send_ticket_mail_returns)

lemma logs_as_alert_v3: "logs_as (alert_v3 out cfg st) (log_v3 out cfg st)"
  by (simp add: alert_v3_def log_v3_def logs_as_no_alert logs_as_call_send
      send_email_alert_v3_def send_ticket_mail_returns)

lemma column_Inr:
  "column df name = Inr vs \<longleftrightarrow> name \<in> set (columns df) \<and> vs = map (cell_of name) (iterrows df)"
  by (auto simp: column_def cell_of_def)

lemma apply_classify_Inr:
  "apply_classify f vs = Inr cats
     \<Longrightarrow> map Some cats = map (\<lambda>v. case v of Str m \<Rightarrow> Some (f m) | _ \<Rightarrow> None) vs"
proof (induction vs arbitrary: cats)
  case Nil
  then show ?case by simp
next
  case (Cons v vs)
  then show ?case
    by (cases v) (auto simp: then_do_def split: sum.splits)
qed

lemma classified_rows:
  assumes "column df ''Message'' = Inr messages" and "apply_classify f messages = Inr cats"
  shows "map Some cats = map (classified f) (iterrows df)"
proof -
  have "messages = map (cell_of ''Message'') (iterrows df)"
    using assms(1) by (simp add: column_Inr)
  moreover have "(case cell_of ''Message'' r of Str m \<Rightarrow> Some (f m) | _ \<Rightarrow> None) = classified f r" for r
    by (simp add: cell_of_def classified_def split: option.split cell.split)
  ultimately show ?thesis
    using apply_classify_Inr [OF assms(2)] by simp
qed

lemma zip_classified:
  assumes "map Some cats = map g rows"
  shows "filter (\<lambda>(r, c). c = SupplierIssue) (zip rows cats)
           = map (\<lambda>r. (r, SupplierIssue)) (filter (\<lambda>r. g r = Some SupplierIssue) rows)"
  using assms
proof (induction rows arbitrary: cats)
  case Nil
  then show ?case by simp
next
  case (Cons r rows)
  then obtain c cs where "cats = c # cs" by (cases cats) auto
  with Cons show ?case by auto
qed

lemma row_items_classified:
  assumes "map Some cats = map g rows"
  shows "row_items (zip rows cats)
           = map (\<lambda>r. (r, row_issue)) (filter (\<lambda>r. g r = Some SupplierIssue) rows)"
  by (simp add: row_items_def zip_classified [OF assms] comp_def)

lemma count_list_filter:
  "count_list (filter P xs) v = (if P v then count_list xs v else 0)"
  by (induction xs) auto

lemma count_list_map: "count_list (map f xs) v = length (filter (\<lambda>x. f x = v) xs)"
  by (induction xs) auto

lemma distinct_fst_sort_key:
  "distinct (map fst xs) \<Longrightarrow> distinct (map fst (sort_key f xs))"
  by (simp add: distinct_map)

lemma set_value_counts:
  "set (value_counts vs) = (\<lambda>v. (v, count_list vs v)) ` (set vs - {NaN})"
  by (auto simp: value_counts_def Let_def count_list_filter)

lemma distinct_value_counts: "distinct (map fst (value_counts vs))"
  unfolding value_counts_def Let_def
  by (rule distinct_fst_sort_key) (simp add: comp_def)

lemma set_groupby_count:
  "set (groupby_count keys vals)
     = (\<lambda>k. (k, length (filter (\<lambda>(k', v). k' = k \<and> v \<noteq> NaN) (zip keys vals))))
         ` (set keys - {NaN})"
  by (auto simp: groupby_count_def)

lemma distinct_groupby_count: "distinct (map fst (groupby_count keys vals))"
  by (simp add: groupby_count_def comp_def)

lemma sample_row_exists:
  assumes "s \<noteq> NaN" and "s \<in> cell_of ''Supplier'' ` set (iterrows df)"
  shows "\<exists>r. sample_row df s = Inr r \<and> get r ''Supplier'' = s"
proof -
  from assms obtain r0 where r0: "r0 \<in> set (iterrows df)" "cell_of ''Supplier'' r0 = s"
    by auto
  with assms(1) have "map_of r0 ''Supplier'' = Some s"
    by (auto simp: cell_of_def split: option.splits)
  with r0 assms(1)
  have "find (\<lambda>r. s \<noteq> NaN \<and> map_of r ''Supplier'' = Some s) (iterrows df) \<noteq> None"
    by (auto simp: find_None_iff)
  then obtain r where r: "find (\<lambda>r. s \<noteq> NaN \<and> map_of r ''Supplier'' = Some s) (iterrows df) = Some r"
    by auto
  then have "map_of r ''Supplier'' = Some s"
    by (auto simp: find_Some_iff)
  with r show ?thesis
    by (simp add: sample_row_def get_def)
qed

lemma supplier_tickets_from:
  "map Supplier (tickets_from out k items) = map (\<lambda>(r, i). get r ''Supplier'') items"
  by (induction items arbitrary: k) (auto simp: ticket_at_def)

lemma issue_tickets_from: "map Issue (tickets_from out k items) = map snd items"
  by (induction items arbitrary: k) (auto simp: ticket_at_def)

lemma agg_items_suppliers:
  assumes "\<And>s cnt. (s, cnt) \<in> set counts \<Longrightarrow> \<exists>r. sample_row df s = Inr r \<and> get r ''Supplier'' = s"
  shows "map (\<lambda>(r, i). (get r ''Supplier'', i)) (agg_items df issue threshold counts)
           = map (\<lambda>(s, cnt). (s, issue s cnt)) (filter (\<lambda>(s, cnt). int cnt \<ge> threshold) counts)"
  using assms
proof (induction counts)
  case Nil
  show ?case by (simp add: agg_items_def)
next
  case (Cons sc counts)
  obtain s cnt where sc: "sc = (s, cnt)" by (cases sc)
  obtain r where r: "sample_row df s = Inr r" "get r ''Supplier'' = s"
    using Cons.prems [of s cnt] sc by auto
  have "map (\<lambda>(r, i). (get r ''Supplier'', i)) (agg_items df issue threshold counts)
           = map (\<lambda>(s, cnt). (s, issue s cnt)) (filter (\<lambda>(s, cnt). int cnt \<ge> threshold) counts)"
    using Cons.IH Cons.prems by auto
  then show ?case
    using sc r by (simp add: agg_items_def)
qed

lemma count_distinct_key:
  assumes "distinct (map fst xs)"
  shows "length (filter (\<lambda>(k, c). k = s) (filter P xs))
           = (if \<exists>c. (s, c) \<in> set xs \<and> P (s, c) then 1 else 0)"
  using assms
proof (induction xs)
  case Nil
  then show ?case by simp
next
  case (Cons x xs)
  obtain k c where x: "x = (k, c)" by (cases x)
  show ?case
  proof (cases "k = s")
    case True
    with Cons x have "\<forall>c'. (s, c') \<notin> set xs"
      by (auto simp: image_iff)
    then have "filter (\<lambda>(k, c). k = s) (filter P xs) = []"
      by (auto simp: filter_empty_conv)
    with True x \<open>\<forall>c'. (s, c') \<notin> set xs\<close> show ?thesis by auto
  next
    case False
    then have "filter (\<lambda>(k, c). k = s) (filter P (x # xs))
                 = filter (\<lambda>(k, c). k = s) (filter P xs)"
      using x by simp
    moreover have "(\<exists>c. (s, c) \<in> set (x # xs) \<and> P (s, c))
                     = (\<exists>c. (s, c) \<in> set xs \<and> P (s, c))"
      using False x by auto
    ultimately show ?thesis
      using Cons by simp
  qed
qed

lemma zip_map_classified:
  assumes "map Some cats = map g rows"
  shows "map fst (filter (\<lambda>(s, c). c = SupplierIssue) (zip (map h rows) cats))
           = map h (filter (\<lambda>r. g r = Some SupplierIssue) rows)"
  using assms
proof (induction rows arbitrary: cats)
  case Nil
  then show ?case by simp
next
  case (Cons r rows)
  then obtain c cs where "cats = c # cs" by (cases cats) auto
  with Cons show ?case by auto
qed

lemma counts_v1_samples:
  assumes "(s, cnt) \<in> set (counts_v1 df)"
  shows "\<exists>r. sample_row df s = Inr r \<and> get r ''Supplier'' = s"
proof -
  from assms have "s \<noteq> NaN" "s \<in> cell_of ''Supplier'' ` set (hits call_openai_classify_v1 df)"
    by (auto simp: counts_v1_def set_value_counts)
  then show ?thesis
    by (intro sample_row_exists) (auto simp: hits_def)
qed

lemma counts_v3_samples:
  assumes "(s, cnt) \<in> set (counts_v3 df)"
  shows "\<exists>r. sample_row df s = Inr r \<and> get r ''Supplier'' = s"
proof -
  from assms have "s \<noteq> NaN" "s \<in> cell_of ''Supplier'' ` set (iterrows df)"
    by (auto simp: counts_v3_def set_groupby_count)
  then show ?thesis
    by (intro sample_row_exists)
qed

lemma run_v1_result:
  assumes "fst (run_v1 out cfg st df w) = Inr ts"
  shows "run_v1 out cfg st df w =
           (Inr (tickets_from out (created w) (items_v1 st df)),
            after_tickets (log_v1 out cfg st) (tickets_from out (created w) (items_v1 st df)) w)"
proof -
  from assms obtain messages cats suppliers where
    m: "column df ''Message'' = Inr messages" and
    c: "apply_classify call_openai_classify_v1 messages = Inr cats" and
    q: "require_columns df [''Complaint_ID'', ''Message'', ''Supplier''] = Inr ()" and
    s: "column df ''Supplier'' = Inr suppliers"
    by (auto simp: run_v1_def then_do_def split: sum.splits)
  have cl: "map Some cats = map (classified call_openai_classify_v1) (iterrows df)"
    by (rule classified_rows [OF m c])
  have sup: "suppliers = map (cell_of ''Supplier'') (iterrows df)"
    using s by (simp add: column_Inr)
  have counts: "supplier_issue_counts suppliers cats = counts_v1 df"
    by (simp add: supplier_issue_counts_def counts_v1_def hits_def sup
        zip_map_classified [OF cl])
  have rows: "row_items (zip (iterrows df) cats)
                = map (\<lambda>r. (r, row_issue)) (hits call_openai_classify_v1 df)"
    by (simp add: row_items_classified [OF cl] hits_def)
  have "run_v1 out cfg st df w =
          both_loops out (alert_v1 out cfg st) issue_v1 df (auto_ticket_threshold st) cats
            (counts_v1 df) w"
    by (simp add: run_v1_def then_do_def m c q s counts del: require_columns.simps)
  also have "\<dots> = (Inr (tickets_from out (created w) (items_v1 st df)),
            after_tickets (log_v1 out cfg st) (tickets_from out (created w) (items_v1 st df)) w)"
    using counts_v1_samples [of _ _ df]
    by (subst both_loops_result [OF logs_as_alert_v1]) (auto simp: rows items_v1_def)
  finally show ?thesis .
qed

lemma run_v3_result:
  assumes "fst (run_v3 out cfg st df w) = Inr ts"
  shows "run_v3 out cfg st df w =
           (Inr (tickets_from out (created w) (items_v3 st df)),
            after_tickets (log_v3 out cfg st) (tickets_from out (created w) (items_v3 st df)) w)"
proof -
  from assms obtain messages cats suppliers ids where
    m: "column df ''Message'' = Inr messages" and
    c: "apply_classify call_openai_classify_v3 messages = Inr cats" and
    q: "require_columns df [''Complaint_ID'', ''Message'', ''Supplier''] = Inr ()" and
    s: "column df ''Supplier'' = Inr suppliers" and
    i: "column df ''Complaint_ID'' = Inr ids"
    by (auto simp: run_v3_def then_do_def split: sum.splits)
  have cl: "map Some cats = map (classified call_openai_classify_v3) (iterrows df)"
    by (rule classified_rows [OF m c])
  have counts: "groupby_count suppliers ids = counts_v3 df"
    using s i by (simp add: counts_v3_def column_Inr)
  have rows: "row_items (zip (iterrows df) cats)
                = map (\<lambda>r. (r, row_issue)) (hits call_openai_classify_v3 df)"
    by (simp add: row_items_classified [OF cl] hits_def)
  have "run_v3 out cfg st df w =
          both_loops out (alert_v3 out cfg st) issue_v3 df (auto_ticket_threshold st) cats
            (counts_v3 df) w"
    by (simp add: run_v3_def then_do_def m c q s i counts del: require_columns.simps)
  also have "\<dots> = (Inr (tickets_from out (created w) (items_v3 st df)),
            after_tickets (log_v3 out cfg st) (tickets_from out (created w) (items_v3 st df)) w)"
    using counts_v3_samples [of _ _ df]
    by (subst both_loops_result [OF logs_as_alert_v3]) (auto simp: rows items_v3_def)
  finally show ?thesis .
qed

section \<open>When a run returns\<close>

lemma apply_classify_returns:
  "(\<exists>cats. apply_classify f vs = Inr cats) \<longleftrightarrow> (\<forall>v \<in> set vs. \<exists>m. v = Str m)"
proof (induction vs)
  case Nil
  show ?case by simp
next
  case (Cons v vs)
  then show ?case
    by (cases v) (auto simp: then_do_def split: sum.splits)
qed

lemma require_columns_Inr:
  "require_columns df cs = Inr () \<longleftrightarrow> set cs \<subseteq> set (columns df)"
  by (induction cs) auto

lemma both_loops_v1_returns:
  "\<exists>ts w'. both_loops out (alert_v1 out cfg st) issue_v1 df threshold cats (counts_v1 df) w
             = (Inr ts, w')"
  using both_loops_result [OF logs_as_alert_v1, of "counts_v1 df" df] counts_v1_samples [of _ _ df]
  by blast

lemma both_loops_v3_returns:
  "\<exists>ts w'. both_loops out (alert_v3 out cfg st) issue_v3 df threshold cats (counts_v3 df) w
             = (Inr ts, w')"
  using both_loops_result [OF logs_as_alert_v3, of "counts_v3 df" df] counts_v3_samples [of _ _ df]
  by blast

text \<open>
  When a run returns: the three columns that the run reads are there and every message is a
  string. Otherwise it raises, before any ticket is created, and leaves the world as it was.
\<close>

lemma run_v1_returns_iff:
  "(\<exists>new_tickets. fst (run_v1 out cfg st df w) = Inr new_tickets)
     \<longleftrightarrow> {''Message'', ''Complaint_ID'', ''Supplier''} \<subseteq> set (columns df)
         \<and> (\<forall>r \<in> set (iterrows df). \<exists>m. cell_of ''Message'' r = Str m)"
proof
  assume "\<exists>new_tickets. fst (run_v1 out cfg st df w) = Inr new_tickets"
  then obtain messages cats where
    m: "column df ''Message'' = Inr messages" and
    c: "apply_classify call_openai_classify_v1 messages = Inr cats" and
    q: "require_columns df [''Complaint_ID'', ''Message'', ''Supplier''] = Inr ()"
    by (auto simp: run_v1_def then_do_def split: sum.splits simp del: require_columns.simps)
  from c have "\<forall>v \<in> set messages. \<exists>m. v = Str m"
    using apply_classify_returns [of call_openai_classify_v1 messages] by blast
  moreover from q have "set [''Complaint_ID'', ''Message'', ''Supplier''] \<subseteq> set (columns df)"
    by (simp only: require_columns_Inr)
  ultimately show "{''Message'', ''Complaint_ID'', ''Supplier''} \<subseteq> set (columns df)
         \<and> (\<forall>r \<in> set (iterrows df). \<exists>m. cell_of ''Message'' r = Str m)"
    using m by (auto simp: column_Inr)
next
  assume a: "{''Message'', ''Complaint_ID'', ''Supplier''} \<subseteq> set (columns df)
         \<and> (\<forall>r \<in> set (iterrows df). \<exists>m. cell_of ''Message'' r = Str m)"
  then have m: "column df ''Message'' = Inr (map (cell_of ''Message'') (iterrows df))"
    and s: "column df ''Supplier'' = Inr (map (cell_of ''Supplier'') (iterrows df))"
    and q: "require_columns df [''Complaint_ID'', ''Message'', ''Supplier''] = Inr ()"
    by (simp_all add: column_Inr require_columns_Inr del: require_columns.simps)
  from a obtain cats where
    c: "apply_classify call_openai_classify_v1 (map (cell_of ''Message'') (iterrows df)) = Inr cats"
    using apply_classify_returns [of call_openai_classify_v1 "map (cell_of ''Message'') (iterrows df)"]
    by auto
  have cl: "map Some cats = map (classified call_openai_classify_v1) (iterrows df)"
    by (rule classified_rows [OF m c])
  have counts: "supplier_issue_counts (map (cell_of ''Supplier'') (iterrows df)) cats = counts_v1 df"
    by (simp add: supplier_issue_counts_def counts_v1_def hits_def zip_map_classified [OF cl])
  have "run_v1 out cfg st df w =
          both_loops out (alert_v1 out cfg st) issue_v1 df (auto_ticket_threshold st) cats
            (counts_v1 df) w"
    by (simp add: run_v1_def then_do_def m c q s counts del: require_columns.simps)
  with both_loops_v1_returns [of out cfg st df "auto_ticket_threshold st" cats w]
  show "\<exists>new_tickets. fst (run_v1 out cfg st df w) = Inr new_tickets"
    by auto
qed

lemma run_v3_returns_iff:
  "(\<exists>new_tickets. fst (run_v3 out cfg st df w) = Inr new_tickets)
     \<longleftrightarrow> {''Message'', ''Complaint_ID'', ''Supplier''} \<subseteq> set (columns df)
         \<and> (\<forall>r \<in> set (iterrows df). \<exists>m. cell_of ''Message'' r = Str m)"
proof
  assume "\<exists>new_tickets. fst (run_v3 out cfg st df w) = Inr new_tickets"
  then obtain messages cats where
    m: "column df ''Message'' = Inr messages" and
    c: "apply_classify call_openai_classify_v3 messages = Inr cats" and
    q: "require_columns df [''Complaint_ID'', ''Message'', ''Supplier''] = Inr ()"
    by (auto simp: run_v3_def then_do_def split: sum.splits simp del: require_columns.simps)
  from c have "\<forall>v \<in> set messages. \<exists>m. v = Str m"
    using apply_classify_returns [of call_openai_classify_v3 messages] by blast
  moreover from q have "set [''Complaint_ID'', ''Message'', ''Supplier''] \<subseteq> set (columns df)"
    by (simp only: require_columns_Inr)
  ultimately show "{''Message'', ''Complaint_ID'', ''Supplier''} \<subseteq> set (columns df)
         \<and> (\<forall>r \<in> set (iterrows df). \<exists>m. cell_of ''Message'' r = Str m)"
    using m by (auto simp: column_Inr)
next
  assume a: "{''Message'', ''Complaint_ID'', ''Supplier''} \<subseteq> set (columns df)
         \<and> (\<forall>r \<in> set (iterrows df). \<exists>m. cell_of ''Message'' r = Str m)"
  then have m: "column df ''Message'' = Inr (map (cell_of ''Message'') (iterrows df))"
    and s: "column df ''Supplier'' = Inr (map (cell_of ''Supplier'') (iterrows df))"
    and i: "column df ''Complaint_ID'' = Inr (map (cell_of ''Complaint_ID'') (iterrows df))"
    and q: "require_columns df [''Complaint_ID'', ''Message'', ''Supplier''] = Inr ()"
    by (simp_all add: column_Inr require_columns_Inr del: require_columns.simps)
  from a obtain cats where
    c: "apply_classify call_openai_classify_v3 (map (cell_of ''Message'') (iterrows df)) = Inr cats"
    using apply_classify_returns [of call_openai_classify_v3 "map (cell_of ''Message'') (iterrows df)"]
    by auto
  have "run_v3 out cfg st df w =
          both_loops out (alert_v3 out cfg st) issue_v3 df (auto_ticket_threshold st) cats
            (counts_v3 df) w"
    by (simp add: run_v3_def then_do_def m c q s i counts_v3_def del: require_columns.simps)
  with both_loops_v3_returns [of out cfg st df "auto_ticket_threshold st" cats w]
  show "\<exists>new_tickets. fst (run_v3 out cfg st df w) = Inr new_tickets"
    by auto
qed

lemma run_v1_raises_unchanged:
  assumes "fst (run_v1 out cfg st df w) = Inl e"
  shows "snd (run_v1 out cfg st df w) = w"
proof (cases "then_do (column df ''Message'') (\<lambda>messages.
           then_do (apply_classify call_openai_classify_v1 messages) (\<lambda>cats.
           then_do (require_columns df [''Complaint_ID'', ''Message'', ''Supplier'']) (\<lambda>_.
           then_do (column df ''Supplier'') (\<lambda>suppliers.
           Inr (cats, supplier_issue_counts suppliers cats)))))")
  case (Inl e')
  then show ?thesis by (simp add: run_v1_def)
next
  case (Inr p)
  then have "\<exists>ts. fst (run_v1 out cfg st df w) = Inr ts"
    using run_v1_returns_iff [of out cfg st df w]
    by (auto simp: then_do_def column_Inr require_columns_Inr
        dest!: apply_classify_returns [THEN iffD1, OF exI] split: sum.splits
        simp del: require_columns.simps)
  with assms show ?thesis by auto
qed

lemma run_v3_raises_unchanged:
  assumes "fst (run_v3 out cfg st df w) = Inl e"
  shows "snd (run_v3 out cfg st df w) = w"
proof (cases "then_do (column df ''Message'') (\<lambda>messages.
           then_do (apply_classify call_openai_classify_v3 messages) (\<lambda>cats.
           then_do (require_columns df [''Complaint_ID'', ''Message'', ''Supplier'']) (\<lambda>_.
           then_do (column df ''Supplier'') (\<lambda>suppliers.
           then_do (column df ''Complaint_ID'') (\<lambda>ids.
           Inr (cats, groupby_count suppliers ids))))))")
  case (Inl e')
  then show ?thesis by (simp add: run_v3_def)
next
  case (Inr p)
  then have "\<exists>ts. fst (run_v3 out cfg st df w) = Inr ts"
    using run_v3_returns_iff [of out cfg st df w]
    by (auto simp: then_do_def column_Inr require_columns_Inr
        dest!: apply_classify_returns [THEN iffD1, OF exI] split: sum.splits
        simp del: require_columns.simps)
  with assms show ?thesis by auto
qed

section \<open>The rule-based classifier\<close>

lemma classify_v3_supplier:
  "list_ex (\<lambda>word. str_in word (lower msg)) supplier_words
     \<Longrightarrow> call_openai_classify_v3 msg = SupplierIssue"
  by (simp add: call_openai_classify_v3_def)

lemma classify_v1_supplier:
  "list_ex (\<lambda>word. str_in word (lower msg)) [''damage'', ''wrong'', ''missing'', ''color'']
     \<Longrightarrow> call_openai_classify_v1 msg = SupplierIssue"
  by (auto simp: call_openai_classify_v1_def)

text \<open>
  C2. A message whose lower-case form contains one of \<open>damage\<close>, \<open>wrong\<close>, \<open>missing\<close>,
  \<open>color\<close>, \<open>defect\<close> is classified \<open>SupplierIssue\<close>. Variant 3 does so (lemma
  \<open>classify_v3_supplier\<close>), variant 1 does so for the first four words only: on
  \<open>Defective item\<close>, which contains \<open>defect\<close>, variant 1 answers \<open>CustomerIssue\<close> where
  variant 3 answers \<open>SupplierIssue\<close>.
\<close>

theorem classify_v1_misses_defect:
  "str_in ''defect'' (lower ''Defective item'')
   \<and> call_openai_classify_v1 ''Defective item'' = CustomerIssue
   \<and> call_openai_classify_v3 ''Defective item'' = SupplierIssue"
  by code_simp

text \<open>
  C9. A message whose lower-case form contains no supplier keyword and no logistics keyword
  is classified \<open>CustomerIssue\<close>, by variant 1 and by variant 3; and whatever the message,
  neither of the two returns \<open>Unknown\<close>.
\<close>

theorem classify_neither_is_customer:
  "(\<not> list_ex (\<lambda>word. str_in word (lower msg)) supplier_words
      \<and> \<not> list_ex (\<lambda>word. str_in word (lower msg)) logistics_words
      \<longrightarrow> call_openai_classify_v1 msg = CustomerIssue
          \<and> call_openai_classify_v3 msg = CustomerIssue)
   \<and> call_openai_classify_v1 msg \<noteq> Unknown
   \<and> call_openai_classify_v3 msg \<noteq> Unknown"
  by (simp add: call_openai_classify_v1_def call_openai_classify_v3_def supplier_words_def
      logistics_words_def Let_def)

text \<open>
  The message \<open>Please refund my order\<close> contains no keyword of either list.
\<close>

theorem classify_neither_is_customer_witness:
  "\<not> list_ex (\<lambda>word. str_in word (lower ''Please refund my order'')) supplier_words
   \<and> \<not> list_ex (\<lambda>word. str_in word (lower ''Please refund my order'')) logistics_words
   \<and> call_openai_classify_v1 ''Please refund my order'' = CustomerIssue
   \<and> call_openai_classify_v3 ''Please refund my order'' = CustomerIssue"
proof -
  have s: "\<not> list_ex (\<lambda>word. str_in word (lower ''Please refund my order'')) supplier_words"
    by code_simp
  have l: "\<not> list_ex (\<lambda>word. str_in word (lower ''Please refund my order'')) logistics_words"
    by code_simp
  from s l classify_neither_is_customer [of "''Please refund my order''"]
  show ?thesis by blast
qed

section \<open>Created tickets\<close>

lemma create_ticket_entry_ticket:
  "fst (create_ticket_entry out r issue_text w) =
     \<lparr>Ticket_ID = CHR ''T'' # str_int (fst (clock out (created w))),
      Complaint_ID = get r ''Complaint_ID'', Supplier = get r ''Supplier'',
      Product = get r ''Product'', Order_ID = get r ''Order_ID'', Issue = issue_text,
      Created_At = snd (clock out (created w)), Status = ''Open'', Notes = []\<rparr>"
  by (simp add: create_ticket_entry_def Let_def split: prod.split)

lemma create_ticket_entry_world:
  "snd (create_ticket_entry out r issue_text w) =
     w\<lparr>tickets_csv :=
         tickets_csv w @ writerow (ticket_values (fst (create_ticket_entry out r issue_text w))),
       created := Suc (created w)\<rparr>"
  by (simp add: create_ticket_entry_def append_ticket_def Let_def split: prod.split)

text \<open>
  C10. \<open>create_ticket_entry\<close> always returns a ticket: a key among \<open>Complaint_ID\<close>,
  \<open>Supplier\<close>, \<open>Product\<close>, \<open>Order_ID\<close> that the row does not have becomes the empty string
  in the ticket, a key it has gives its value; \<open>Status\<close> is \<open>Open\<close> and \<open>Notes\<close> is empty.
\<close>

theorem create_ticket_entry_defaults:
  "Complaint_ID (fst (create_ticket_entry out r issue_text w))
     = (case map_of r ''Complaint_ID'' of None \<Rightarrow> Str [] | Some v \<Rightarrow> v)
   \<and> Supplier (fst (create_ticket_entry out r issue_text w))
     = (case map_of r ''Supplier'' of None \<Rightarrow> Str [] | Some v \<Rightarrow> v)
   \<and> Product (fst (create_ticket_entry out r issue_text w))
     = (case map_of r ''Product'' of None \<Rightarrow> Str [] | Some v \<Rightarrow> v)
   \<and> Order_ID (fst (create_ticket_entry out r issue_text w))
     = (case map_of r ''Order_ID'' of None \<Rightarrow> Str [] | Some v \<Rightarrow> v)
   \<and> Issue (fst (create_ticket_entry out r issue_text w)) = issue_text
   \<and> Status (fst (create_ticket_entry out r issue_text w)) = ''Open''
   \<and> Notes (fst (create_ticket_entry out r issue_text w)) = []"
  by (simp add: create_ticket_entry_ticket get_def split: option.split)


section \<open>Aggregate tickets\<close>

lemma issue_v1_neq: "issue_v1 s cnt \<noteq> row_issue"
  by (simp add: issue_v1_def row_issue_def)

lemma issue_v3_neq: "issue_v3 s cnt \<noteq> row_issue"
  by (simp add: issue_v3_def row_issue_def)

lemma length_filter_tickets_from:
  "length (filter (\<lambda>t. P (Supplier t) (Issue t)) (tickets_from out k items))
     = length (filter (\<lambda>(r, i). P (get r ''Supplier'') i) items)"
  by (induction items arbitrary: k) (auto simp: ticket_at_def)

lemma length_filter_agg_items:
  assumes "\<And>s cnt. (s, cnt) \<in> set counts \<Longrightarrow> \<exists>r. sample_row df s = Inr r \<and> get r ''Supplier'' = s"
  shows "length (filter (\<lambda>(r, i). P (get r ''Supplier'') i) (agg_items df issue threshold counts))
           = length (filter (\<lambda>(s, cnt). P s (issue s cnt))
                       (filter (\<lambda>(s, cnt). int cnt \<ge> threshold) counts))"
proof -
  have "length (filter (\<lambda>(r, i). P (get r ''Supplier'') i) (agg_items df issue threshold counts))
          = length (filter (\<lambda>(s, i). P s i)
              (map (\<lambda>(r, i). (get r ''Supplier'', i)) (agg_items df issue threshold counts)))"
    by (simp add: filter_map comp_def case_prod_unfold)
  also have "\<dots> = length (filter (\<lambda>(s, i). P s i)
              (map (\<lambda>(s, cnt). (s, issue s cnt))
                 (filter (\<lambda>(s, cnt). int cnt \<ge> threshold) counts)))"
    by (simp only: agg_items_suppliers [OF assms])
  also have "\<dots> = length (filter (\<lambda>(s, cnt). P s (issue s cnt))
                       (filter (\<lambda>(s, cnt). int cnt \<ge> threshold) counts))"
    by (simp add: filter_map comp_def case_prod_unfold)
  finally show ?thesis .
qed

lemma aggregates_for_items:
  assumes "\<And>s cnt. (s, cnt) \<in> set counts \<Longrightarrow> \<exists>r. sample_row df s = Inr r \<and> get r ''Supplier'' = s"
    and "\<And>s cnt. issue s cnt \<noteq> row_issue"
    and "distinct (map fst counts)"
  shows "length (aggregates_for s
           (tickets_from out k (map (\<lambda>r. (r, row_issue)) rows @ agg_items df issue threshold counts)))
         = (if \<exists>cnt. (s, cnt) \<in> set counts \<and> int cnt \<ge> threshold then 1 else 0)"
proof -
  have "length (aggregates_for s
           (tickets_from out k (map (\<lambda>r. (r, row_issue)) rows @ agg_items df issue threshold counts)))
        = length (filter (\<lambda>(r, i). get r ''Supplier'' = s \<and> i \<noteq> row_issue)
                    (agg_items df issue threshold counts))"
    unfolding aggregates_for_def
    by (simp add: length_filter_tickets_from [where P = "\<lambda>a i. a = s \<and> i \<noteq> row_issue"]
        filter_map comp_def)
  also have "\<dots> = length (filter (\<lambda>(s', cnt). s' = s \<and> issue s' cnt \<noteq> row_issue)
                       (filter (\<lambda>(s, cnt). int cnt \<ge> threshold) counts))"
    by (rule length_filter_agg_items [where P = "\<lambda>a i. a = s \<and> i \<noteq> row_issue", OF assms(1)])
  also have "\<dots> = length (filter (\<lambda>(k, c). k = s)
                       (filter (\<lambda>(s, cnt). int cnt \<ge> threshold) counts))"
    by (simp add: assms(2))
  also have "\<dots> = (if \<exists>cnt. (s, cnt) \<in> set counts \<and> int cnt \<ge> threshold then 1 else 0)"
    using count_distinct_key [OF assms(3), of s "\<lambda>(s, cnt). int cnt \<ge> threshold"] by simp
  finally show ?thesis .
qed

lemma counts_v1_member:
  "(s, cnt) \<in> set (counts_v1 df)
     \<longleftrightarrow> s \<noteq> NaN \<and> cnt = strict_count call_openai_classify_v1 df s \<and> 0 < cnt"
proof -
  let ?vs = "map (cell_of ''Supplier'') (hits call_openai_classify_v1 df)"
  have c: "count_list ?vs s = strict_count call_openai_classify_v1 df s"
    by (simp add: strict_count_def count_list_map)
  have "(s, cnt) \<in> set (counts_v1 df) \<longleftrightarrow> s \<in> set ?vs \<and> s \<noteq> NaN \<and> cnt = count_list ?vs s"
    unfolding counts_v1_def set_value_counts by auto
  also have "s \<in> set ?vs \<longleftrightarrow> 0 < count_list ?vs s"
    using count_list_0_iff [of ?vs s] by auto
  finally show ?thesis
    using c by auto
qed

lemma counts_v3_member:
  "(s, cnt) \<in> set (counts_v3 df)
     \<longleftrightarrow> s \<noteq> NaN \<and> s \<in> cell_of ''Supplier'' ` set (iterrows df) \<and> cnt = total_count df s"
proof -
  have "zip (map f xs) (map g xs) = map (\<lambda>x. (f x, g x)) xs" for f g :: "row \<Rightarrow> cell" and xs
    by (induction xs) auto
  then have "length (filter (\<lambda>(k', v). k' = s \<and> v \<noteq> NaN)
               (zip (map (cell_of ''Supplier'') (iterrows df))
                    (map (cell_of ''Complaint_ID'') (iterrows df))))
             = total_count df s"
    by (simp add: total_count_def filter_map comp_def)
  then show ?thesis
    unfolding counts_v3_def set_groupby_count by auto
qed

lemma total_count_pos:
  "0 < total_count df s \<Longrightarrow> s \<in> cell_of ''Supplier'' ` set (iterrows df)"
  by (auto simp: total_count_def length_greater_0_conv filter_empty_conv
      simp del: length_greater_0_conv dest!: iffD1 [OF length_greater_0_conv])

lemma string_messages_iff:
  "string_messages df
     \<longleftrightarrow> {''Message'', ''Complaint_ID'', ''Supplier''} \<subseteq> set (columns df)
         \<and> (\<forall>r \<in> set (iterrows df). \<exists>m. cell_of ''Message'' r = Str m)"
proof -
  have "is_str c \<longleftrightarrow> (\<exists>m. c = Str m)" for c
    by (cases c) (simp_all add: is_str_def)
  then show ?thesis
    by (simp add: string_messages_def list_all_iff)
qed

lemma run_v1_returns:
  "string_messages df \<Longrightarrow> \<exists>new_tickets. fst (run_v1 out cfg st df w) = Inr new_tickets"
  using run_v1_returns_iff [of out cfg st df w] string_messages_iff [of df] by blast

lemma run_v3_returns:
  "string_messages df \<Longrightarrow> \<exists>new_tickets. fst (run_v3 out cfg st df w) = Inr new_tickets"
  using run_v3_returns_iff [of out cfg st df w] string_messages_iff [of df] by blast

lemma aggregates_of_run_v1:
  assumes "1 \<le> auto_ticket_threshold st" and "s \<noteq> NaN"
    and r: "fst (run_v1 out cfg st df w) = Inr new_tickets"
  shows "length (aggregates_for s new_tickets)
           = (if auto_ticket_threshold st \<le> int (strict_count call_openai_classify_v1 df s)
              then 1 else 0)"
proof -
  have ts: "new_tickets = tickets_from out (created w) (items_v1 st df)"
    using run_v1_result [OF r] r by simp
  have "(\<exists>cnt. (s, cnt) \<in> set (counts_v1 df) \<and> auto_ticket_threshold st \<le> int cnt)
          \<longleftrightarrow> auto_ticket_threshold st \<le> int (strict_count call_openai_classify_v1 df s)"
    using assms by (auto simp: counts_v1_member)
  then show ?thesis
    unfolding ts items_v1_def
    using aggregates_for_items [of "counts_v1 df" df issue_v1 s out "created w"
        "hits call_openai_classify_v1 df" "auto_ticket_threshold st"]
      counts_v1_samples [of _ _ df] issue_v1_neq distinct_value_counts
    by (simp add: counts_v1_def)
qed

lemma aggregates_of_run_v3:
  assumes "1 \<le> auto_ticket_threshold st" and "s \<noteq> NaN"
    and r: "fst (run_v3 out cfg st df w) = Inr new_tickets"
  shows "length (aggregates_for s new_tickets)
           = (if auto_ticket_threshold st \<le> int (total_count df s) then 1 else 0)"
proof -
  have ts: "new_tickets = tickets_from out (created w) (items_v3 st df)"
    using run_v3_result [OF r] r by simp
  have "(\<exists>cnt. (s, cnt) \<in> set (counts_v3 df) \<and> auto_ticket_threshold st \<le> int cnt)
          \<longleftrightarrow> auto_ticket_threshold st \<le> int (total_count df s)"
    using assms total_count_pos [of df s] by (auto simp: counts_v3_member)
  then show ?thesis
    unfolding ts items_v3_def
    using aggregates_for_items [of "counts_v3 df" df issue_v3 s out "created w"
        "hits call_openai_classify_v3 df" "auto_ticket_threshold st"]
      counts_v3_samples [of _ _ df] issue_v3_neq distinct_groupby_count
    by (simp add: counts_v3_def)
qed

text \<open>
  C1 (amended). Take a batch that has the columns \<open>Message\<close>, \<open>Complaint_ID\<close> and
  \<open>Supplier\<close> and only strings as messages, a threshold of at least 1 and a supplier that is
  not the missing value. Then the run of variant 1 returns its tickets, and among them the
  supplier has exactly one aggregate ticket when the number of its rows classified
  \<open>SupplierIssue\<close> reaches the threshold, and none otherwise, whatever its other rows. The
  run of variant 3 returns its tickets as well, but decides on the number of all rows of
  the supplier that have a \<open>Complaint_ID\<close>, whatever their category.
\<close>

theorem aggregate_ticket_decision:
  assumes "1 \<le> auto_ticket_threshold st" and "s \<noteq> NaN" and "string_messages df"
  shows "(\<exists>new_tickets. fst (run_v1 out cfg st df w) = Inr new_tickets
            \<and> length (aggregates_for s new_tickets)
                = (if auto_ticket_threshold st \<le> int (strict_count call_openai_classify_v1 df s)
                   then 1 else 0))
       \<and> (\<exists>new_tickets. fst (run_v3 out cfg st df w) = Inr new_tickets
            \<and> length (aggregates_for s new_tickets)
                = (if auto_ticket_threshold st \<le> int (total_count df s) then 1 else 0))"
proof
  from run_v1_returns [OF assms(3)] obtain ts where "fst (run_v1 out cfg st df w) = Inr ts"
    by blast
  with aggregates_of_run_v1 [OF assms(1,2)]
  show "\<exists>new_tickets. fst (run_v1 out cfg st df w) = Inr new_tickets
            \<and> length (aggregates_for s new_tickets)
                = (if auto_ticket_threshold st \<le> int (strict_count call_openai_classify_v1 df s)
                   then 1 else 0)"
    by blast
  from run_v3_returns [OF assms(3)] obtain ts where "fst (run_v3 out cfg st df w) = Inr ts"
    by blast
  with aggregates_of_run_v3 [OF assms(1,2)]
  show "\<exists>new_tickets. fst (run_v3 out cfg st df w) = Inr new_tickets
            \<and> length (aggregates_for s new_tickets)
                = (if auto_ticket_threshold st \<le> int (total_count df s) then 1 else 0)"
    by blast
qed

text \<open>
  In the example upload, with threshold 1, the supplier has one row classified
  \<open>SupplierIssue\<close> and two rows in all: each variant creates one aggregate ticket for it.
\<close>

theorem aggregate_ticket_decision_witness:
  "1 \<le> auto_ticket_threshold ex_settings \<and> Str ''Acme'' \<noteq> NaN \<and> string_messages ex_frame
   \<and> strict_count call_openai_classify_v1 ex_frame (Str ''Acme'') = 1
   \<and> total_count ex_frame (Str ''Acme'') = 2
   \<and> length (aggregates_for (Str ''Acme'')
         (projr (fst (run_v1 ex_outside ex_config ex_settings ex_frame ex_world)))) = 1
   \<and> length (aggregates_for (Str ''Acme'')
         (projr (fst (run_v3 ex_outside ex_config ex_settings ex_frame ex_world)))) = 1"
proof -
  have t: "1 \<le> auto_ticket_threshold ex_settings"
    by (simp add: ex_settings_def)
  have n: "Str ''Acme'' \<noteq> NaN"
    by simp
  have m: "string_messages ex_frame"
    by code_simp
  have c1: "strict_count call_openai_classify_v1 ex_frame (Str ''Acme'') = 1"
    by code_simp
  have c3: "total_count ex_frame (Str ''Acme'') = 2"
    by code_simp
  have a: "auto_ticket_threshold ex_settings = 1"
    by (simp add: ex_settings_def)
  from aggregate_ticket_decision [OF t n m, of ex_outside ex_config ex_world] c1 c3 a
  obtain ts1 ts3 where
    "fst (run_v1 ex_outside ex_config ex_settings ex_frame ex_world) = Inr ts1"
    "length (aggregates_for (Str ''Acme'') ts1) = 1"
    "fst (run_v3 ex_outside ex_config ex_settings ex_frame ex_world) = Inr ts3"
    "length (aggregates_for (Str ''Acme'') ts3) = 1"
    by auto
  then show ?thesis
    using t n m c1 c3 by simp
qed

text \<open>
  C1 as stated fails in variant 3. With threshold 2 the supplier of the example upload has
  one row classified \<open>SupplierIssue\<close>, one less than the threshold, and still gets an
  aggregate ticket, for its two rows.
\<close>

theorem aggregate_v3_counts_every_row:
  "call_openai_classify_v3 ''Wrong color received'' = SupplierIssue
   \<and> call_openai_classify_v3 ''Arrived late'' = LogisticsIssue
   \<and> strict_count call_openai_classify_v3 ex_frame (Str ''Acme'') = 1
   \<and> map_sum id (map (\<lambda>t. (Supplier t, Issue t)))
        (fst (run_v3 ex_outside ex_config (ex_settings\<lparr>auto_ticket_threshold := 2\<rparr>)
                ex_frame ex_world))
       = Inr [(Str ''Acme'', ''Supplier Issue detected from complaint text''),
              (Str ''Acme'', ''Aggregate alert: 2 total complaints for Acme'')]"
  by code_simp

section \<open>Tickets for rows\<close>

lemma tickets_csv_after_tickets:
  "tickets_csv (after_tickets logf ts w) = tickets_csv w @ ledger_lines ts"
  by (simp add: after_tickets_def)

lemma row_part_of_items:
  assumes "\<And>s cnt. (s, cnt) \<in> set counts \<Longrightarrow> \<exists>r. sample_row df s = Inr r \<and> get r ''Supplier'' = s"
    and "\<And>s cnt. issue s cnt \<noteq> row_issue"
  shows "length (filter (\<lambda>t. Issue t = row_issue)
           (tickets_from out k (map (\<lambda>r. (r, row_issue)) rows @ agg_items df issue threshold counts)))
         = length rows"
    and "take (length rows)
           (tickets_from out k (map (\<lambda>r. (r, row_issue)) rows @ agg_items df issue threshold counts))
         = tickets_from out k (map (\<lambda>r. (r, row_issue)) rows)"
proof -
  have "length (filter (\<lambda>(r, i). i = row_issue) (agg_items df issue threshold counts)) = 0"
    using length_filter_agg_items [where P = "\<lambda>a i. i = row_issue", OF assms(1)]
    by (simp add: assms(2))
  then show "length (filter (\<lambda>t. Issue t = row_issue)
           (tickets_from out k (map (\<lambda>r. (r, row_issue)) rows @ agg_items df issue threshold counts)))
         = length rows"
    by (simp add: length_filter_tickets_from [where P = "\<lambda>a i. i = row_issue"]
        filter_map comp_def)
  show "take (length rows)
           (tickets_from out k (map (\<lambda>r. (r, row_issue)) rows @ agg_items df issue threshold counts))
         = tickets_from out k (map (\<lambda>r. (r, row_issue)) rows)"
    by (simp add: tickets_from_append length_tickets_from)
qed

text \<open>
  When a run of variant 1 or of variant 3 returns its tickets, those whose issue text
  is \<open>Supplier Issue detected from complaint text\<close> are as many as the rows classified
  \<open>SupplierIssue\<close>; they come first, one for each such row in input order, built from that
  row at successive readings of the clock; and the tickets file has grown by the lines of
  the new tickets, in creation order.
\<close>

lemma row_tickets_of_run:
  "(fst (run_v1 out cfg st df w) = Inr new_tickets \<longrightarrow>
      length (filter (\<lambda>t. Issue t = ''Supplier Issue detected from complaint text'') new_tickets)
        = length (hits call_openai_classify_v1 df)
      \<and> take (length (hits call_openai_classify_v1 df)) new_tickets
        = tickets_from out (created w)
            (map (\<lambda>r. (r, ''Supplier Issue detected from complaint text''))
               (hits call_openai_classify_v1 df))
      \<and> tickets_csv (snd (run_v1 out cfg st df w)) = tickets_csv w @ ledger_lines new_tickets)
   \<and> (fst (run_v3 out cfg st df w) = Inr new_tickets \<longrightarrow>
      length (filter (\<lambda>t. Issue t = ''Supplier Issue detected from complaint text'') new_tickets)
        = length (hits call_openai_classify_v3 df)
      \<and> take (length (hits call_openai_classify_v3 df)) new_tickets
        = tickets_from out (created w)
            (map (\<lambda>r. (r, ''Supplier Issue detected from complaint text''))
               (hits call_openai_classify_v3 df))
      \<and> tickets_csv (snd (run_v3 out cfg st df w)) = tickets_csv w @ ledger_lines new_tickets)"
proof (intro conjI impI)
  assume r: "fst (run_v1 out cfg st df w) = Inr new_tickets"
  have ts: "new_tickets = tickets_from out (created w) (items_v1 st df)"
    using run_v1_result [OF r] r by simp
  note part = row_part_of_items [where counts = "counts_v1 df" and df = df and issue = issue_v1
      and out = out and k = "created w" and rows = "hits call_openai_classify_v1 df"
      and threshold = "auto_ticket_threshold st", OF counts_v1_samples issue_v1_neq]
  show "length (filter (\<lambda>t. Issue t = ''Supplier Issue detected from complaint text'') new_tickets)
        = length (hits call_openai_classify_v1 df)"
    using part(1) by (simp add: ts items_v1_def row_issue_def)
  show "take (length (hits call_openai_classify_v1 df)) new_tickets
        = tickets_from out (created w)
            (map (\<lambda>r. (r, ''Supplier Issue detected from complaint text''))
               (hits call_openai_classify_v1 df))"
    using part(2) by (simp add: ts items_v1_def row_issue_def)
  show "tickets_csv (snd (run_v1 out cfg st df w)) = tickets_csv w @ ledger_lines new_tickets"
    using run_v1_result [OF r] by (simp add: ts tickets_csv_after_tickets)
next
  assume r: "fst (run_v3 out cfg st df w) = Inr new_tickets"
  have ts: "new_tickets = tickets_from out (created w) (items_v3 st df)"
    using run_v3_result [OF r] r by simp
  note part = row_part_of_items [where counts = "counts_v3 df" and df = df and issue = issue_v3
      and out = out and k = "created w" and rows = "hits call_openai_classify_v3 df"
      and threshold = "auto_ticket_threshold st", OF counts_v3_samples issue_v3_neq]
  show "length (filter (\<lambda>t. Issue t = ''Supplier Issue detected from complaint text'') new_tickets)
        = length (hits call_openai_classify_v3 df)"
    using part(1) by (simp add: ts items_v3_def row_issue_def)
  show "take (length (hits call_openai_classify_v3 df)) new_tickets
        = tickets_from out (created w)
            (map (\<lambda>r. (r, ''Supplier Issue detected from complaint text''))
               (hits call_openai_classify_v3 df))"
    using part(2) by (simp add: ts items_v3_def row_issue_def)
  show "tickets_csv (snd (run_v3 out cfg st df w)) = tickets_csv w @ ledger_lines new_tickets"
    using run_v3_result [OF r] by (simp add: ts tickets_csv_after_tickets)
qed

text \<open>
  On a batch that has the three columns and only strings as messages, both runs return
  their tickets, so that the above holds of them.
\<close>

lemma row_tickets_when_strings:
  assumes "string_messages df"
  shows "\<exists>new_tickets. fst (run_v1 out cfg st df w) = Inr new_tickets
           \<and> length (filter (\<lambda>t. Issue t = ''Supplier Issue detected from complaint text'')
                        new_tickets)
               = length (hits call_openai_classify_v1 df)
           \<and> take (length (hits call_openai_classify_v1 df)) new_tickets
               = tickets_from out (created w)
                   (map (\<lambda>r. (r, ''Supplier Issue detected from complaint text''))
                      (hits call_openai_classify_v1 df))
           \<and> tickets_csv (snd (run_v1 out cfg st df w))
               = tickets_csv w @ ledger_lines new_tickets"
    and "\<exists>new_tickets. fst (run_v3 out cfg st df w) = Inr new_tickets
           \<and> length (filter (\<lambda>t. Issue t = ''Supplier Issue detected from complaint text'')
                        new_tickets)
               = length (hits call_openai_classify_v3 df)
           \<and> take (length (hits call_openai_classify_v3 df)) new_tickets
               = tickets_from out (created w)
                   (map (\<lambda>r. (r, ''Supplier Issue detected from complaint text''))
                      (hits call_openai_classify_v3 df))
           \<and> tickets_csv (snd (run_v3 out cfg st df w))
               = tickets_csv w @ ledger_lines new_tickets"
proof -
  from run_v1_returns [OF assms] obtain ts where "fst (run_v1 out cfg st df w) = Inr ts"
    by blast
  with row_tickets_of_run [of out cfg st df w ts]
  show "\<exists>new_tickets. fst (run_v1 out cfg st df w) = Inr new_tickets
           \<and> length (filter (\<lambda>t. Issue t = ''Supplier Issue detected from complaint text'')
                        new_tickets)
               = length (hits call_openai_classify_v1 df)
           \<and> take (length (hits call_openai_classify_v1 df)) new_tickets
               = tickets_from out (created w)
                   (map (\<lambda>r. (r, ''Supplier Issue detected from complaint text''))
                      (hits call_openai_classify_v1 df))
           \<and> tickets_csv (snd (run_v1 out cfg st df w))
               = tickets_csv w @ ledger_lines new_tickets"
    by (intro exI [of _ ts]) simp
  from run_v3_returns [OF assms] obtain ts where "fst (run_v3 out cfg st df w) = Inr ts"
    by blast
  with row_tickets_of_run [of out cfg st df w ts]
  show "\<exists>new_tickets. fst (run_v3 out cfg st df w) = Inr new_tickets
           \<and> length (filter (\<lambda>t. Issue t = ''Supplier Issue detected from complaint text'')
                        new_tickets)
               = length (hits call_openai_classify_v3 df)
           \<and> take (length (hits call_openai_classify_v3 df)) new_tickets
               = tickets_from out (created w)
                   (map (\<lambda>r. (r, ''Supplier Issue detected from complaint text''))
                      (hits call_openai_classify_v3 df))
           \<and> tickets_csv (snd (run_v3 out cfg st df w))
               = tickets_csv w @ ledger_lines new_tickets"
    by (intro exI [of _ ts]) simp
qed

text \<open>
  C8 fails on an upload with an empty message. The first row of the example is a
  \<open>SupplierIssue\<close> row for both rule-based classifiers, the second has no message. The runs
  of variants 1 and 3 raise \<open>AttributeError\<close> while classifying, create no ticket and leave
  the tickets file as it was. Variant 2, which classifies \<open>str(t)\<close>, returns on the same
  upload: with a model that answers \<open>Supplier Issue\<close> for the first message it creates the
  ticket of that row, and the aggregate ticket, and appends their lines to the file.
\<close>

theorem empty_message_no_tickets:
  "call_openai_classify_v1 ''Wrong color received'' = SupplierIssue
   \<and> call_openai_classify_v3 ''Wrong color received'' = SupplierIssue
   \<and> run_v1 ex_outside ex_config ex_settings ex_frame_blank ex_world
       = (Inl (AttributeError ''lower''), ex_world)
   \<and> run_v3 ex_outside ex_config ex_settings ex_frame_blank ex_world
       = (Inl (AttributeError ''lower''), ex_world)
   \<and> map_sum id (map (\<lambda>t. (Ticket_ID t, Complaint_ID t, Issue t)))
        (fst (run_v2 ex_remote ex_config ex_settings ex_frame_blank ex_world))
       = Inr [(''T1700000000000'', Str ''C1'', ''Supplier Issue detected from complaint text''),
              (''T1700000000001'', Str ''C1'', ''Aggregate alert: 1 supplier issues in upload'')]
   \<and> tickets_csv (snd (run_v2 ex_remote ex_config ex_settings ex_frame_blank ex_world))
       = tickets_csv ex_world
         @ ''T1700000000000,C1,Acme,Shoe,,Supplier Issue detected from complaint text,''
         @ ''2023-11-14 22:13:20,Open,'' @ [CHR 0x0D, CHR 0x0A]
         @ ''T1700000000001,C1,Acme,Shoe,,Aggregate alert: 1 supplier issues in upload,''
         @ ''2023-11-14 22:13:20,Open,'' @ [CHR 0x0D, CHR 0x0A]"
  by code_simp

section \<open>Ticket identifiers\<close>

lemma of_char_digit_char:
  "0 \<le> d \<Longrightarrow> d < 10 \<Longrightarrow> (of_char (digit_char d) :: int) = 48 + d"
  by (simp add: digit_char_def)

lemma digits_value_snoc:
  "digits_value (s @ [c]) = 10 * digits_value s + (of_char c - 48)"
  by (simp add: digits_value_def)

lemma digits_value_digits: "0 \<le> n \<Longrightarrow> digits_value (digits n) = n"
proof (induction n rule: digits.induct)
  case (1 n)
  show ?case
  proof (cases "n < 10")
    case True
    with 1 show ?thesis
      by (subst digits.simps) (simp add: digits_value_def of_char_digit_char)
  next
    case False
    with 1 have "digits_value (digits (n div 10)) = n div 10"
      by simp
    with False show ?thesis
      by (subst digits.simps) (simp add: digits_value_snoc of_char_digit_char)
  qed
qed

lemma digits_chars: "0 \<le> n \<Longrightarrow> c \<in> set (digits n) \<Longrightarrow> 48 \<le> (of_char c :: int)"
proof (induction n rule: digits.induct)
  case (1 n)
  show ?case
  proof (cases "n < 10")
    case True
    with 1 show ?thesis
      by (subst (asm) digits.simps) (simp add: of_char_digit_char)
  next
    case False
    with 1(3) have "c \<in> set (digits (n div 10)) \<or> c = digit_char (n mod 10)"
      by (subst (asm) digits.simps) auto
    with 1 False show ?thesis
      by (auto simp: of_char_digit_char)
  qed
qed

lemma digits_not_minus: "0 \<le> n \<Longrightarrow> digits n \<noteq> CHR ''-'' # s"
proof
  assume n: "0 \<le> n" and "digits n = CHR ''-'' # s"
  then have "CHR ''-'' \<in> set (digits n)" by simp
  from digits_chars [OF n this] show False by simp
qed

lemma str_int_inj: "str_int i = str_int j \<Longrightarrow> i = j"
proof -
  assume e: "str_int i = str_int j"
  consider "i < 0" "j < 0" | "i < 0" "0 \<le> j" | "0 \<le> i" "j < 0" | "0 \<le> i" "0 \<le> j"
    by linarith
  then show ?thesis
  proof cases
    case 1
    with e have "digits (- i) = digits (- j)" by (simp add: str_int_def)
    then have "digits_value (digits (- i)) = digits_value (digits (- j))" by simp
    with 1 show ?thesis by (simp add: digits_value_digits)
  next
    case 2
    with e have "digits j = CHR ''-'' # digits (- i)" by (simp add: str_int_def)
    with 2 digits_not_minus [of j "digits (- i)"] show ?thesis by simp
  next
    case 3
    with e have "digits i = CHR ''-'' # digits (- j)" by (simp add: str_int_def)
    with 3 digits_not_minus [of i "digits (- j)"] show ?thesis by simp
  next
    case 4
    with e have "digits_value (digits i) = digits_value (digits j)" by (simp add: str_int_def)
    with 4 show ?thesis by (simp add: digits_value_digits)
  qed
qed

lemma ticket_ids_tickets_from:
  "map Ticket_ID (tickets_from out k items)
     = map (\<lambda>i. CHR ''T'' # str_int (fst (clock out i))) [k..<k + length items]"
proof (induction items arbitrary: k)
  case Nil
  show ?case by simp
next
  case (Cons x items)
  obtain r i where x: "x = (r, i)" by (cases x)
  have u: "[k..<k + length (x # items)] = k # [Suc k..<Suc k + length items]"
    by (subst upt_rec) (simp del: upt_Suc)
  show ?case
    unfolding u using Cons [of "Suc k"] by (simp add: x ticket_at_def del: upt_Suc)
qed

lemma distinct_ids_iff:
  "distinct (map (\<lambda>i. CHR ''T'' # str_int (fst (clock out i))) ks)
     \<longleftrightarrow> distinct (map (\<lambda>i. fst (clock out i)) ks)"
proof -
  have "inj (\<lambda>n. CHR ''T'' # str_int n)"
    by (auto intro!: injI dest: str_int_inj)
  then have "inj_on (\<lambda>n. CHR ''T'' # str_int n) (set (map (\<lambda>i. fst (clock out i)) ks))"
    by (rule inj_on_subset) simp
  then have "distinct (map (\<lambda>n. CHR ''T'' # str_int n) (map (\<lambda>i. fst (clock out i)) ks))
               \<longleftrightarrow> distinct (map (\<lambda>i. fst (clock out i)) ks)"
    by (simp only: distinct_map simp_thms)
  then show ?thesis by (simp add: comp_def)
qed

lemma ticket_number_id: "ticket_number (CHR ''T'' # str_int n) = n"
proof (cases "n < 0")
  case True
  then show ?thesis
    by (simp add: ticket_number_def str_int_def digits_value_digits)
next
  case False
  then have n: "0 \<le> n" by simp
  have "take 1 (digits n) \<noteq> ''-''"
  proof
    assume "take 1 (digits n) = ''-''"
    then have "digits n = CHR ''-'' # tl (digits n)"
      by (cases "digits n") simp_all
    with digits_not_minus [OF n] show False by blast
  qed
  with n show ?thesis
    by (simp add: ticket_number_def str_int_def digits_value_digits)
qed

lemma ticket_numbers_of_ids:
  "map (\<lambda>t. ticket_number (Ticket_ID t)) ts = map ticket_number (map Ticket_ID ts)"
  by simp

text \<open>
  Compared as strings, identifiers need not follow their numbers: \<open>T9\<close> comes after \<open>T10\<close>.
\<close>

lemma ticket_ids_as_strings:
  "\<not> CHR ''T'' # str_int 9 < CHR ''T'' # str_int 10"
  by code_simp

text \<open>
  C3 (amended). The tickets of a run carry the identifiers \<open>T\<close> followed by the clock's
  millisecond readings at the successive creations, in creation order. They are pairwise
  distinct exactly when those readings are pairwise distinct; nothing else separates two
  tickets created in the same millisecond. The numbers after the \<open>T\<close> are those readings,
  so they increase strictly along the tickets exactly when the readings do.
\<close>

theorem ticket_ids_follow_clock:
  "fst (run_v1 out cfg st df w) = Inr new_tickets \<or> fst (run_v3 out cfg st df w) = Inr new_tickets
   \<longrightarrow> map Ticket_ID new_tickets
         = map (\<lambda>k. CHR ''T'' # str_int (fst (clock out k)))
             [created w..<created w + length new_tickets]
       \<and> (distinct (map Ticket_ID new_tickets)
            \<longleftrightarrow> distinct (map (\<lambda>k. fst (clock out k))
                            [created w..<created w + length new_tickets]))
       \<and> map (\<lambda>t. ticket_number (Ticket_ID t)) new_tickets
           = map (\<lambda>k. fst (clock out k)) [created w..<created w + length new_tickets]
       \<and> (sorted_wrt (<) (map (\<lambda>t. ticket_number (Ticket_ID t)) new_tickets)
            \<longleftrightarrow> sorted_wrt (<) (map (\<lambda>k. fst (clock out k))
                                  [created w..<created w + length new_tickets]))"
proof
  assume "fst (run_v1 out cfg st df w) = Inr new_tickets
            \<or> fst (run_v3 out cfg st df w) = Inr new_tickets"
  then obtain items where ts: "new_tickets = tickets_from out (created w) items"
    using run_v1_result [of out cfg st df w new_tickets]
      run_v3_result [of out cfg st df w new_tickets] by auto
  have ids: "map Ticket_ID new_tickets
         = map (\<lambda>k. CHR ''T'' # str_int (fst (clock out k)))
             [created w..<created w + length new_tickets]"
    by (simp add: ts ticket_ids_tickets_from length_tickets_from)
  have d: "distinct (map Ticket_ID new_tickets)
            \<longleftrightarrow> distinct (map (\<lambda>k. fst (clock out k))
                            [created w..<created w + length new_tickets])"
    using ids by (simp only: distinct_ids_iff simp_thms)
  have nums: "map (\<lambda>t. ticket_number (Ticket_ID t)) new_tickets
           = map (\<lambda>k. fst (clock out k)) [created w..<created w + length new_tickets]"
    unfolding ticket_numbers_of_ids ids by (simp add: ticket_number_id)
  from ids d nums
  show "map Ticket_ID new_tickets
         = map (\<lambda>k. CHR ''T'' # str_int (fst (clock out k)))
             [created w..<created w + length new_tickets]
       \<and> (distinct (map Ticket_ID new_tickets)
            \<longleftrightarrow> distinct (map (\<lambda>k. fst (clock out k))
                            [created w..<created w + length new_tickets]))
       \<and> map (\<lambda>t. ticket_number (Ticket_ID t)) new_tickets
           = map (\<lambda>k. fst (clock out k)) [created w..<created w + length new_tickets]
       \<and> (sorted_wrt (<) (map (\<lambda>t. ticket_number (Ticket_ID t)) new_tickets)
            \<longleftrightarrow> sorted_wrt (<) (map (\<lambda>k. fst (clock out k))
                                  [created w..<created w + length new_tickets]))"
    by (simp only: simp_thms)
qed

text \<open>
  With the clock that advances, the two tickets of the example run get different
  identifiers, with increasing numbers.
\<close>

theorem ticket_ids_follow_clock_witness:
  "map Ticket_ID (projr (fst (run_v1 ex_outside ex_config ex_settings ex_frame ex_world)))
     = [''T1700000000000'', ''T1700000000001'']
   \<and> distinct (map Ticket_ID
        (projr (fst (run_v1 ex_outside ex_config ex_settings ex_frame ex_world))))
   \<and> map (\<lambda>t. ticket_number (Ticket_ID t))
        (projr (fst (run_v1 ex_outside ex_config ex_settings ex_frame ex_world)))
     = [1700000000000, 1700000000001]
   \<and> sorted_wrt (<) (map (\<lambda>t. ticket_number (Ticket_ID t))
        (projr (fst (run_v1 ex_outside ex_config ex_settings ex_frame ex_world))))"
proof -
  let ?ts = "projr (fst (run_v1 ex_outside ex_config ex_settings ex_frame ex_world))"
  have r1: "fst (run_v1 ex_outside ex_config ex_settings ex_frame ex_world) = Inr ?ts"
    by code_simp
  have l: "length ?ts = 2"
    by code_simp
  have c: "created ex_world = 0"
    by (simp add: ex_world_def)
  have k: "map (\<lambda>k. CHR ''T'' # str_int (fst (clock ex_outside k))) [0..<2]
             = [''T1700000000000'', ''T1700000000001'']"
    by code_simp
  have n: "map (\<lambda>k. fst (clock ex_outside k)) [0..<2] = [1700000000000, 1700000000001]"
    by code_simp
  note th = ticket_ids_follow_clock [of ex_outside ex_config ex_settings ex_frame ex_world ?ts,
      THEN mp, OF disjI1, OF r1, unfolded l c add_0 k n]
  from th have "map Ticket_ID ?ts = [''T1700000000000'', ''T1700000000001'']"
    and "map (\<lambda>t. ticket_number (Ticket_ID t)) ?ts = [1700000000000, 1700000000001]"
    by blast+
  then show ?thesis
    by simp
qed

text \<open>
  C3 as stated fails: with a clock that reads the same millisecond at both creations, the
  two tickets of the run get the same identifier.
\<close>

theorem same_millisecond_same_id:
  "map_sum id (map Ticket_ID)
     (fst (run_v1 ex_frozen ex_config ex_settings ex_frame ex_world))
     = Inr [''T1700000000000'', ''T1700000000000'']"
  by code_simp

section \<open>Alerts for tickets\<close>

lemma alerts_after_tickets:
  "alerts (after_tickets logf ts w) = alerts w @ alert_log logf (length (alerts w)) ts"
  by (simp add: after_tickets_def)

lemma alert_log_silent: "alert_log (\<lambda>k t. []) k ts = []"
  by (induction ts arbitrary: k) auto

lemma alert_log_ticket_alert:
  "alert_log (ticket_alert send out recipient) k ts
     = map (\<lambda>(t, i). TicketAlert t recipient (send (smtp out i) t recipient))
         (zip ts [k..<k + length ts])"
proof (induction ts arbitrary: k)
  case Nil
  show ?case by simp
next
  case (Cons t ts)
  have u: "[k..<k + length (t # ts)] = k # [Suc k..<Suc k + length ts]"
    by (subst upt_rec) (simp del: upt_Suc)
  show ?case
    unfolding u using Cons [of "Suc k"] by (simp add: ticket_alert_def del: upt_Suc)
qed

text \<open>
  C5 (amended). In variant 3, with \<open>email_alerts\<close> ticked, a run that returns has called
  \<open>send_email_alert\<close> exactly once for every ticket it created, per row and aggregate, in
  creation order, with the chosen recipient. In variant 1 this holds when
  \<open>USE_EMAIL_ALERTS\<close> is set as well; otherwise variant 1 calls it for no ticket. The run
  returns the tickets only: what each call returned is dropped.
\<close>

theorem alerts_per_ticket:
  "(email_alerts st \<longrightarrow> fst (run_v3 out cfg st df w) = Inr new_tickets \<longrightarrow>
      alerts (snd (run_v3 out cfg st df w))
        = alerts w
          @ map (\<lambda>(t, i). TicketAlert t (email_recipient st)
                    (send_email_alert_v3 cfg (smtp out i) t (email_recipient st)))
              (zip new_tickets [length (alerts w)..<length (alerts w) + length new_tickets]))
   \<and> (email_alerts st \<and> USE_EMAIL_ALERTS cfg \<longrightarrow>
        fst (run_v1 out cfg st df w) = Inr new_tickets \<longrightarrow>
      alerts (snd (run_v1 out cfg st df w))
        = alerts w
          @ map (\<lambda>(t, i). TicketAlert t (email_recipient st)
                    (send_email_alert_v1 cfg (smtp out i) t (email_recipient st)))
              (zip new_tickets [length (alerts w)..<length (alerts w) + length new_tickets]))
   \<and> (\<not> (email_alerts st \<and> USE_EMAIL_ALERTS cfg) \<longrightarrow>
        fst (run_v1 out cfg st df w) = Inr new_tickets \<longrightarrow>
      alerts (snd (run_v1 out cfg st df w)) = alerts w)"
proof (intro conjI impI)
  assume on: "email_alerts st" and r: "fst (run_v3 out cfg st df w) = Inr new_tickets"
  have ts: "new_tickets = tickets_from out (created w) (items_v3 st df)"
    using run_v3_result [OF r] r by simp
  show "alerts (snd (run_v3 out cfg st df w))
        = alerts w
          @ map (\<lambda>(t, i). TicketAlert t (email_recipient st)
                    (send_email_alert_v3 cfg (smtp out i) t (email_recipient st)))
              (zip new_tickets [length (alerts w)..<length (alerts w) + length new_tickets])"
    using run_v3_result [OF r] on
    by (simp add: ts alerts_after_tickets log_v3_def alert_log_ticket_alert)
next
  assume on: "email_alerts st \<and> USE_EMAIL_ALERTS cfg"
    and r: "fst (run_v1 out cfg st df w) = Inr new_tickets"
  have ts: "new_tickets = tickets_from out (created w) (items_v1 st df)"
    using run_v1_result [OF r] r by simp
  show "alerts (snd (run_v1 out cfg st df w))
        = alerts w
          @ map (\<lambda>(t, i). TicketAlert t (email_recipient st)
                    (send_email_alert_v1 cfg (smtp out i) t (email_recipient st)))
              (zip new_tickets [length (alerts w)..<length (alerts w) + length new_tickets])"
    using run_v1_result [OF r] on
    by (simp add: ts alerts_after_tickets log_v1_def alert_log_ticket_alert)
next
  assume off: "\<not> (email_alerts st \<and> USE_EMAIL_ALERTS cfg)"
    and r: "fst (run_v1 out cfg st df w) = Inr new_tickets"
  show "alerts (snd (run_v1 out cfg st df w)) = alerts w"
    using run_v1_result [OF r] off
    by (auto simp: alerts_after_tickets log_v1_def alert_log_silent)
qed

text \<open>
  In the example run both variants create two tickets and make two calls; with
  \<open>USE_EMAIL_ALERTS\<close> unset variant 1 makes none.
\<close>

theorem alerts_per_ticket_witness:
  "email_alerts ex_settings \<and> USE_EMAIL_ALERTS ex_config
   \<and> length (projr (fst (run_v3 ex_outside ex_config ex_settings ex_frame ex_world))) = 2
   \<and> length (alerts (snd (run_v3 ex_outside ex_config ex_settings ex_frame ex_world))) = 2
   \<and> length (projr (fst (run_v1 ex_outside ex_config ex_settings ex_frame ex_world))) = 2
   \<and> length (alerts (snd (run_v1 ex_outside ex_config ex_settings ex_frame ex_world))) = 2
   \<and> \<not> USE_EMAIL_ALERTS ex_config_off
   \<and> alerts (snd (run_v1 ex_outside ex_config_off ex_settings ex_frame ex_world))
       = alerts ex_world"
proof -
  have e: "email_alerts ex_settings" and u: "USE_EMAIL_ALERTS ex_config"
    and o: "\<not> USE_EMAIL_ALERTS ex_config_off"
    by (simp_all add: ex_settings_def ex_config_def ex_config_off_def)
  have a: "alerts ex_world = []"
    by (simp add: ex_world_def)
  have r3: "fst (run_v3 ex_outside ex_config ex_settings ex_frame ex_world)
              = Inr (projr (fst (run_v3 ex_outside ex_config ex_settings ex_frame ex_world)))"
    by code_simp
  have r1: "fst (run_v1 ex_outside ex_config ex_settings ex_frame ex_world)
              = Inr (projr (fst (run_v1 ex_outside ex_config ex_settings ex_frame ex_world)))"
    by code_simp
  have r0: "fst (run_v1 ex_outside ex_config_off ex_settings ex_frame ex_world)
              = Inr (projr (fst (run_v1 ex_outside ex_config_off ex_settings ex_frame ex_world)))"
    by code_simp
  have l3: "length (projr (fst (run_v3 ex_outside ex_config ex_settings ex_frame ex_world))) = 2"
    by code_simp
  have l1: "length (projr (fst (run_v1 ex_outside ex_config ex_settings ex_frame ex_world))) = 2"
    by code_simp
  from alerts_per_ticket [of ex_settings ex_outside ex_config ex_frame ex_world
      "projr (fst (run_v3 ex_outside ex_config ex_settings ex_frame ex_world))"] e r3
  have "length (alerts (snd (run_v3 ex_outside ex_config ex_settings ex_frame ex_world))) = 2"
    by (simp add: a l3)
  moreover
  from alerts_per_ticket [of ex_settings ex_outside ex_config ex_frame ex_world
      "projr (fst (run_v1 ex_outside ex_config ex_settings ex_frame ex_world))"] e u r1
  have "length (alerts (snd (run_v1 ex_outside ex_config ex_settings ex_frame ex_world))) = 2"
    by (simp add: a l1)
  moreover
  from alerts_per_ticket [of ex_settings ex_outside ex_config_off ex_frame ex_world
      "projr (fst (run_v1 ex_outside ex_config_off ex_settings ex_frame ex_world))"] o r0
  have "alerts (snd (run_v1 ex_outside ex_config_off ex_settings ex_frame ex_world))
          = alerts ex_world"
    by simp
  ultimately show ?thesis
    using e u o l3 l1 by simp
qed

text \<open>
  C5 as stated fails in variant 1: with \<open>email_alerts\<close> ticked and \<open>USE_EMAIL_ALERTS\<close>
  unset, the run creates two tickets and calls \<open>send_email_alert\<close> for neither.
\<close>

theorem tickets_without_alerts:
  "email_alerts ex_settings
   \<and> map_sum id length (fst (run_v1 ex_outside ex_config_off ex_settings ex_frame ex_world))
       = Inr 2
   \<and> alerts (snd (run_v1 ex_outside ex_config_off ex_settings ex_frame ex_world)) = []"
  by code_simp

section \<open>Missing columns\<close>

lemma run_v2_rejects:
  "\<not> set required_cols \<subseteq> set (columns df) \<Longrightarrow> run_v2 out cfg st df w = (Inl MissingColumns, w)"
  by (simp add: run_v2_def)

lemma run_v2_rejects_example:
  "run_v2 ex_outside ex_config ex_settings ex_frame_no_product ex_world
     = (Inl MissingColumns, ex_world)"
  by (rule run_v2_rejects) (simp add: required_cols_def ex_frame_no_product_def)

text \<open>
  C4. A batch without one of the columns \<open>Complaint_ID\<close>, \<open>Message\<close>, \<open>Supplier\<close>,
  \<open>Product\<close> is to be rejected before anything is classified or written. Variant 2 does
  so (lemma \<open>run_v2_rejects\<close>). Variants 1 and 3 have no such check: on a batch without
  the \<open>Product\<close> column they classify the rows, create the per-row and the aggregate
  ticket with an empty \<open>Product\<close>, and append both to the tickets file.
\<close>

theorem missing_product_still_processed:
  "''Product'' \<notin> set (columns ex_frame_no_product)
   \<and> map_sum id (map (\<lambda>t. (Complaint_ID t, Product t, Issue t)))
        (fst (run_v1 ex_outside ex_config ex_settings ex_frame_no_product ex_world))
       = Inr [(Str ''C1'', Str [], ''Supplier Issue detected from complaint text''),
              (Str ''C1'', Str [], ''Aggregate alert: 1 supplier issues in upload'')]
   \<and> map_sum id (map (\<lambda>t. (Complaint_ID t, Product t, Issue t)))
        (fst (run_v3 ex_outside ex_config ex_settings ex_frame_no_product ex_world))
       = Inr [(Str ''C1'', Str [], ''Supplier Issue detected from complaint text''),
              (Str ''C1'', Str [], ''Aggregate alert: 1 total complaints for Acme'')]
   \<and> tickets_csv (snd (run_v1 ex_outside ex_config ex_settings ex_frame_no_product ex_world))
       = tickets_csv ex_world
         @ ''T1700000000000,C1,Acme,,,Supplier Issue detected from complaint text,''
         @ ''2023-11-14 22:13:20,Open,'' @ [CHR 0x0D, CHR 0x0A]
         @ ''T1700000000001,C1,Acme,,,Aggregate alert: 1 supplier issues in upload,''
         @ ''2023-11-14 22:13:20,Open,'' @ [CHR 0x0D, CHR 0x0A]
   \<and> fst (run_v2 ex_outside ex_config ex_settings ex_frame_no_product ex_world)
       = Inl MissingColumns"
  by code_simp

section \<open>The notifier\<close>

lemma deliver_cases:
  "(connect srv server port = Some m \<longrightarrow>
      deliver srv server port user password recipient msg = Inl (OtherError m))
   \<and> (connect srv server port = None \<and> starttls srv = Some m \<longrightarrow>
      deliver srv server port user password recipient msg = Inl (OtherError m))
   \<and> (connect srv server port = None \<and> starttls srv = None
        \<and> login srv user password = Some m \<longrightarrow>
      deliver srv server port user password recipient msg = Inl (OtherError m))
   \<and> (connect srv server port = None \<and> starttls srv = None
        \<and> login srv user password = None \<and> sendmail srv user recipient msg = Some m \<longrightarrow>
      deliver srv server port user password recipient msg = Inl (OtherError m))
   \<and> (connect srv server port = None \<and> starttls srv = None
        \<and> login srv user password = None \<and> sendmail srv user recipient msg = None
        \<and> quit srv = Some m \<longrightarrow>
      deliver srv server port user password recipient msg = Inl (OtherError m))
   \<and> (connect srv server port = None \<and> starttls srv = None
        \<and> login srv user password = None \<and> sendmail srv user recipient msg = None
        \<and> quit srv = None \<longrightarrow>
      deliver srv server port user password recipient msg = Inr ())"
  by (simp add: deliver_def then_do_def raise_if_def)

lemma send_ticket_mail_unconfigured:
  "\<not> configured cfg \<Longrightarrow>
     send_ticket_mail cfg srv subject ticket recipient
       = Inr (False, ''Email settings not configured.'')"
  by (auto simp: send_ticket_mail_def configured_def split: option.splits)

lemma send_ticket_mail_configured:
  assumes "configured cfg" and "SMTP_SERVER cfg = Some server"
    and "EMAIL_USERNAME cfg = Some user" and "EMAIL_PASSWORD cfg = Some password"
  shows "send_ticket_mail cfg srv subject ticket recipient
           = (case deliver srv server (SMTP_PORT cfg) user password recipient
                     (subject, ticket_body ticket) of
                Inl e \<Rightarrow> Inr (False, str_exn e)
              | Inr u \<Rightarrow> Inr (True, ''Email sent successfully.''))"
  using assms
  by (simp add: send_ticket_mail_def configured_def try_except_def then_do_def
      split: sum.splits)

lemma send_ticket_mail_returns_pair:
  "\<exists>ok detail. send_ticket_mail cfg srv subject ticket recipient = Inr (ok, detail)"
proof (cases "configured cfg")
  case False
  then show ?thesis by (intro exI) (rule send_ticket_mail_unconfigured)
next
  case True
  then obtain server user password where
    "SMTP_SERVER cfg = Some server" "EMAIL_USERNAME cfg = Some user"
    "EMAIL_PASSWORD cfg = Some password"
    by (auto simp: configured_def split: option.splits)
  from send_ticket_mail_configured [OF True this, of srv subject ticket recipient]
  show ?thesis
    by (cases "deliver srv server (SMTP_PORT cfg) user password recipient
                 (subject, ticket_body ticket)") auto
qed

lemma send_ticket_mail_cases:
  assumes "configured cfg" and "SMTP_SERVER cfg = Some server"
    and "EMAIL_USERNAME cfg = Some user" and "EMAIL_PASSWORD cfg = Some password"
    and "msg = (subject, ticket_body ticket)"
  shows "connect srv server (SMTP_PORT cfg) = Some m \<Longrightarrow>
           send_ticket_mail cfg srv subject ticket recipient = Inr (False, m)"
    and "connect srv server (SMTP_PORT cfg) = None \<and> starttls srv = Some m \<Longrightarrow>
           send_ticket_mail cfg srv subject ticket recipient = Inr (False, m)"
    and "connect srv server (SMTP_PORT cfg) = None \<and> starttls srv = None
           \<and> login srv user password = Some m \<Longrightarrow>
           send_ticket_mail cfg srv subject ticket recipient = Inr (False, m)"
    and "connect srv server (SMTP_PORT cfg) = None \<and> starttls srv = None
           \<and> login srv user password = None \<Longrightarrow> sendmail srv user recipient msg = Some m \<Longrightarrow>
           send_ticket_mail cfg srv subject ticket recipient = Inr (False, m)"
    and "connect srv server (SMTP_PORT cfg) = None \<and> starttls srv = None
           \<and> login srv user password = None \<Longrightarrow>
           sendmail srv user recipient msg = None \<and> quit srv = Some m \<Longrightarrow>
           send_ticket_mail cfg srv subject ticket recipient = Inr (False, m)"
    and "connect srv server (SMTP_PORT cfg) = None \<and> starttls srv = None
           \<and> login srv user password = None \<Longrightarrow>
           sendmail srv user recipient msg = None \<and> quit srv = None \<Longrightarrow>
           send_ticket_mail cfg srv subject ticket recipient
             = Inr (True, ''Email sent successfully.'')"
  using deliver_cases [where srv = srv and server = server and port = "SMTP_PORT cfg" and m = m
      and user = user and password = password and recipient = recipient and msg = msg] assms(5)
  by (simp_all add: send_ticket_mail_configured [OF assms(1-4)])

text \<open>
  C6 (amended). \<open>send_email_alert(ticket, recipient)\<close> of variants 1 and 3 never raises and
  always returns a pair: \<open>(False, "Email settings not configured.")\<close> when a setting is
  unset or empty; otherwise \<open>(False, str(e))\<close> for the first step of the SMTP conversation
  that raises, be it the connection, \<open>starttls\<close>, the login, \<open>sendmail\<close> of the variant's
  message or \<open>quit\<close>, with \<open>e\<close> what that step raised; and
  \<open>(True, "Email sent successfully.")\<close> when all five steps go through. The
  \<open>send_email_alert\<close> of \<open>email_alerts.py\<close> does not raise on such failures either, but it
  returns \<open>None\<close> in every case.
\<close>

theorem notifier_never_raises:
  "(\<exists>ok detail. send_email_alert_v1 cfg srv ticket recipient = Inr (ok, detail))
   \<and> (\<exists>ok detail. send_email_alert_v3 cfg srv ticket recipient = Inr (ok, detail))
   \<and> (\<not> configured cfg \<longrightarrow>
        send_email_alert_v1 cfg srv ticket recipient
          = Inr (False, ''Email settings not configured.'')
        \<and> send_email_alert_v3 cfg srv ticket recipient
          = Inr (False, ''Email settings not configured.''))
   \<and> (configured cfg \<and> SMTP_SERVER cfg = Some server \<and> EMAIL_USERNAME cfg = Some user
        \<and> EMAIL_PASSWORD cfg = Some password
        \<and> msg1 = (''[Meesho] New Supplier Ticket '' @ Ticket_ID ticket, ticket_body ticket)
        \<and> msg3 = (''[Meesho Alert] Supplier '' @ str_cell (Supplier ticket) @ '' - ''
                    @ Issue ticket, ticket_body ticket) \<longrightarrow>
        (connect srv server (SMTP_PORT cfg) = Some m \<longrightarrow>
           send_email_alert_v1 cfg srv ticket recipient = Inr (False, m)
           \<and> send_email_alert_v3 cfg srv ticket recipient = Inr (False, m))
        \<and> (connect srv server (SMTP_PORT cfg) = None \<and> starttls srv = Some m \<longrightarrow>
           send_email_alert_v1 cfg srv ticket recipient = Inr (False, m)
           \<and> send_email_alert_v3 cfg srv ticket recipient = Inr (False, m))
        \<and> (connect srv server (SMTP_PORT cfg) = None \<and> starttls srv = None
             \<and> login srv user password = Some m \<longrightarrow>
           send_email_alert_v1 cfg srv ticket recipient = Inr (False, m)
           \<and> send_email_alert_v3 cfg srv ticket recipient = Inr (False, m))
        \<and> (connect srv server (SMTP_PORT cfg) = None \<and> starttls srv = None
             \<and> login srv user password = None \<longrightarrow>
             (sendmail srv user recipient msg1 = Some m \<longrightarrow>
                send_email_alert_v1 cfg srv ticket recipient = Inr (False, m))
           \<and> (sendmail srv user recipient msg3 = Some m \<longrightarrow>
                send_email_alert_v3 cfg srv ticket recipient = Inr (False, m))
           \<and> (sendmail srv user recipient msg1 = None \<and> quit srv = Some m \<longrightarrow>
                send_email_alert_v1 cfg srv ticket recipient = Inr (False, m))
           \<and> (sendmail srv user recipient msg3 = None \<and> quit srv = Some m \<longrightarrow>
                send_email_alert_v3 cfg srv ticket recipient = Inr (False, m))
           \<and> (sendmail srv user recipient msg1 = None \<and> quit srv = None \<longrightarrow>
                send_email_alert_v1 cfg srv ticket recipient
                  = Inr (True, ''Email sent successfully.''))
           \<and> (sendmail srv user recipient msg3 = None \<and> quit srv = None \<longrightarrow>
                send_email_alert_v3 cfg srv ticket recipient
                  = Inr (True, ''Email sent successfully.''))))
   \<and> fst (email_alerts_send_email_alert srv EMAIL_USER EMAIL_PASS to_email supplier_name
             issue_count) = Inr None"
proof (intro conjI impI)
  show "\<exists>ok detail. send_email_alert_v1 cfg srv ticket recipient = Inr (ok, detail)"
    unfolding send_email_alert_v1_def by (rule send_ticket_mail_returns_pair)
  show "\<exists>ok detail. send_email_alert_v3 cfg srv ticket recipient = Inr (ok, detail)"
    unfolding send_email_alert_v3_def by (rule send_ticket_mail_returns_pair)
  show "fst (email_alerts_send_email_alert srv EMAIL_USER EMAIL_PASS to_email supplier_name
             issue_count) = Inr None"
    by (simp add: email_alerts_send_email_alert_def split: sum.split)
next
  assume "\<not> configured cfg"
  then show "send_email_alert_v1 cfg srv ticket recipient
          = Inr (False, ''Email settings not configured.'')"
    and "send_email_alert_v3 cfg srv ticket recipient
          = Inr (False, ''Email settings not configured.'')"
    unfolding send_email_alert_v1_def send_email_alert_v3_def
    by (rule send_ticket_mail_unconfigured)+
next
  assume a: "configured cfg \<and> SMTP_SERVER cfg = Some server \<and> EMAIL_USERNAME cfg = Some user
        \<and> EMAIL_PASSWORD cfg = Some password
        \<and> msg1 = (''[Meesho] New Supplier Ticket '' @ Ticket_ID ticket, ticket_body ticket)
        \<and> msg3 = (''[Meesho Alert] Supplier '' @ str_cell (Supplier ticket) @ '' - ''
                    @ Issue ticket, ticket_body ticket)"
  then have c: "configured cfg" "SMTP_SERVER cfg = Some server" "EMAIL_USERNAME cfg = Some user"
    "EMAIL_PASSWORD cfg = Some password"
    and m1: "msg1 = (''[Meesho] New Supplier Ticket '' @ Ticket_ID ticket, ticket_body ticket)"
    and m3: "msg3 = (''[Meesho Alert] Supplier '' @ str_cell (Supplier ticket) @ '' - ''
                    @ Issue ticket, ticket_body ticket)"
    by simp_all
  note v1 = send_ticket_mail_cases [OF c m1, where srv = srv and recipient = recipient,
      folded send_email_alert_v1_def]
  note v3 = send_ticket_mail_cases [OF c m3, where srv = srv and recipient = recipient,
      folded send_email_alert_v3_def]
  {
    assume s: "connect srv server (SMTP_PORT cfg) = Some m"
    from v1(1) [OF s] show "send_email_alert_v1 cfg srv ticket recipient = Inr (False, m)" .
    from v3(1) [OF s] show "send_email_alert_v3 cfg srv ticket recipient = Inr (False, m)" .
  }
  {
    assume s: "connect srv server (SMTP_PORT cfg) = None \<and> starttls srv = Some m"
    from v1(2) [OF s] show "send_email_alert_v1 cfg srv ticket recipient = Inr (False, m)" .
    from v3(2) [OF s] show "send_email_alert_v3 cfg srv ticket recipient = Inr (False, m)" .
  }
  {
    assume s: "connect srv server (SMTP_PORT cfg) = None \<and> starttls srv = None
             \<and> login srv user password = Some m"
    from v1(3) [OF s] show "send_email_alert_v1 cfg srv ticket recipient = Inr (False, m)" .
    from v3(3) [OF s] show "send_email_alert_v3 cfg srv ticket recipient = Inr (False, m)" .
  }
  {
    assume s: "connect srv server (SMTP_PORT cfg) = None \<and> starttls srv = None
             \<and> login srv user password = None"
    {
      assume t: "sendmail srv user recipient msg1 = Some m"
      from v1(4) [OF s t] show "send_email_alert_v1 cfg srv ticket recipient = Inr (False, m)" .
    }
    {
      assume t: "sendmail srv user recipient msg3 = Some m"
      from v3(4) [OF s t] show "send_email_alert_v3 cfg srv ticket recipient = Inr (False, m)" .
    }
    {
      assume t: "sendmail srv user recipient msg1 = None \<and> quit srv = Some m"
      from v1(5) [OF s t] show "send_email_alert_v1 cfg srv ticket recipient = Inr (False, m)" .
    }
    {
      assume t: "sendmail srv user recipient msg3 = None \<and> quit srv = Some m"
      from v3(5) [OF s t] show "send_email_alert_v3 cfg srv ticket recipient = Inr (False, m)" .
    }
    {
      assume t: "sendmail srv user recipient msg1 = None \<and> quit srv = None"
      from v1(6) [OF s t] show "send_email_alert_v1 cfg srv ticket recipient
                  = Inr (True, ''Email sent successfully.'')" .
    }
    {
      assume t: "sendmail srv user recipient msg3 = None \<and> quit srv = None"
      from v3(6) [OF s t] show "send_email_alert_v3 cfg srv ticket recipient
                  = Inr (True, ''Email sent successfully.'')" .
    }
  }
qed


text \<open>
  With the example configuration, the accepting server gives \<open>(True, ...)\<close>, the server
  that refuses the login gives \<open>(False, ...)\<close> with the server's message, and so does the
  server that rejects the mail.
\<close>

theorem notifier_never_raises_witness:
  "configured ex_config
   \<and> send_email_alert_v1 ex_config ex_session \<lparr>Ticket_ID = ''T1'', Complaint_ID = Str ''C1'',
        Supplier = Str ''Acme'', Product = Str ''Shoe'', Order_ID = Str [], Issue = ''x'',
        Created_At = ''2023-11-14 22:13:20'', Status = ''Open'', Notes = []\<rparr>
        ''quality@example.com'' = Inr (True, ''Email sent successfully.'')
   \<and> send_email_alert_v3 ex_config ex_session_refusing \<lparr>Ticket_ID = ''T1'',
        Complaint_ID = Str ''C1'', Supplier = Str ''Acme'', Product = Str ''Shoe'',
        Order_ID = Str [], Issue = ''x'', Created_At = ''2023-11-14 22:13:20'',
        Status = ''Open'', Notes = []\<rparr>
        ''quality@example.com'' = Inr (False, ''Username and Password not accepted'')
   \<and> send_email_alert_v1 ex_config ex_session_rejecting \<lparr>Ticket_ID = ''T1'',
        Complaint_ID = Str ''C1'', Supplier = Str ''Acme'', Product = Str ''Shoe'',
        Order_ID = Str [], Issue = ''x'', Created_At = ''2023-11-14 22:13:20'',
        Status = ''Open'', Notes = []\<rparr>
        ''quality@example.com'' = Inr (False, ''Recipient address rejected'')"
proof -
  let ?t = "\<lparr>Ticket_ID = ''T1'', Complaint_ID = Str ''C1'',
        Supplier = Str ''Acme'', Product = Str ''Shoe'', Order_ID = Str [], Issue = ''x'',
        Created_At = ''2023-11-14 22:13:20'', Status = ''Open'', Notes = []\<rparr>"
  let ?m1 = "(''[Meesho] New Supplier Ticket '' @ Ticket_ID ?t, ticket_body ?t)"
  let ?m3 = "(''[Meesho Alert] Supplier '' @ str_cell (Supplier ?t) @ '' - '' @ Issue ?t,
              ticket_body ?t)"
  have c: "configured ex_config"
    and s: "SMTP_SERVER ex_config = Some ''smtp.gmail.com''"
    and u: "EMAIL_USERNAME ex_config = Some ''agent@example.com''"
    and p: "EMAIL_PASSWORD ex_config = Some ''secret''"
    by (simp_all add: configured_def ex_config_def)
  have ok: "connect ex_session ''smtp.gmail.com'' (SMTP_PORT ex_config) = None"
    "starttls ex_session = None" "login ex_session ''agent@example.com'' ''secret'' = None"
    "sendmail ex_session ''agent@example.com'' ''quality@example.com'' ?m1 = None"
    "quit ex_session = None"
    by (simp_all add: ex_session_def)
  have bad: "connect ex_session_refusing ''smtp.gmail.com'' (SMTP_PORT ex_config) = None"
    "starttls ex_session_refusing = None"
    "login ex_session_refusing ''agent@example.com'' ''secret''
       = Some ''Username and Password not accepted''"
    by (simp_all add: ex_session_refusing_def ex_session_def)
  have rej: "connect ex_session_rejecting ''smtp.gmail.com'' (SMTP_PORT ex_config) = None"
    "starttls ex_session_rejecting = None"
    "login ex_session_rejecting ''agent@example.com'' ''secret'' = None"
    "sendmail ex_session_rejecting ''agent@example.com'' ''quality@example.com'' ?m1
       = Some ''Recipient address rejected''"
    by (simp_all add: ex_session_rejecting_def ex_session_def)
  from notifier_never_raises [of ex_config ex_session ?t "''quality@example.com''"
      "''smtp.gmail.com''" "''agent@example.com''" "''secret''" ?m1 ?m3] c s u p ok
  have "send_email_alert_v1 ex_config ex_session ?t ''quality@example.com''
          = Inr (True, ''Email sent successfully.'')"
    by simp
  moreover
  from notifier_never_raises [of ex_config ex_session_refusing ?t "''quality@example.com''"
      "''smtp.gmail.com''" "''agent@example.com''" "''secret''" ?m1 ?m3
      "''Username and Password not accepted''"] c s u p bad
  have "send_email_alert_v3 ex_config ex_session_refusing ?t ''quality@example.com''
          = Inr (False, ''Username and Password not accepted'')"
    by simp
  moreover
  from notifier_never_raises [of ex_config ex_session_rejecting ?t "''quality@example.com''"
      "''smtp.gmail.com''" "''agent@example.com''" "''secret''" ?m1 ?m3
      "''Recipient address rejected''"] c s u p rej
  have "send_email_alert_v1 ex_config ex_session_rejecting ?t ''quality@example.com''
          = Inr (False, ''Recipient address rejected'')"
    by simp
  ultimately show ?thesis
    using c by simp
qed

text \<open>
  C6 as stated fails for \<open>email_alerts.py\<close>: when the server refuses the login, its
  \<open>send_email_alert\<close> shows the error and returns \<open>None\<close>, not \<open>(False, reason)\<close>.
\<close>

theorem email_alerts_returns_none:
  "email_alerts_send_email_alert ex_session_refusing ''agent@example.com'' ''secret''
     ''quality@example.com'' (Str ''Acme'') 4
     = (Inr None, Error ''Error sending email: Username and Password not accepted'')"
  by (simp add: email_alerts_send_email_alert_def
      ex_session_refusing_def ex_session_def then_do_def raise_if_def)

section \<open>The tickets file read back\<close>




lemma dquote_neq [simp]:
  "dquote \<noteq> CHR '',''" "dquote \<noteq> CHR 0x0A" "dquote \<noteq> CHR 0x0D"
  "CHR '','' \<noteq> dquote" "CHR 0x0A \<noteq> dquote" "CHR 0x0D \<noteq> dquote"
  by (simp_all add: dquote_def)























end
